theory Spec2Isabelle
  imports Complex_Main
begin

section \<open>The piano visualizer: data model\<close>

text \<open>
  A shallow embedding of \<^verbatim>\<open>src/components/piano-visualizer.tsx\<close>.  JavaScript numbers
  are modelled as \<^typ>\<open>real\<close> (exact arithmetic; rounding of IEEE doubles, NaN and the
  infinities are outside the model), MIDI pitches as \<^typ>\<open>int\<close>, arrays as lists and
  \<^verbatim>\<open>Set\<close>s as HOL sets.  A component's \<^verbatim>\<open>return null\<close> is \<open>None\<close>.
\<close>

datatype Vector3 = Vector3 (vx: real) (vy: real) (vz: real)

text \<open>
  The template string \<^verbatim>\<open>`${trackIndex}-${i}-${n.time}`\<close> is kept as the triple of its
  three interpolated values.
\<close>

datatype NoteId = NoteId nat nat real

record NoteData =
  n_id :: NoteId
  n_midi :: int
  n_time :: real
  n_duration :: real
  n_velocity :: real
  n_isBlack :: bool
  n_x :: real
  n_width :: real
  n_color :: string
  n_hit :: bool

text \<open>A note of the parsed score (\<^verbatim>\<open>midiData.tracks[k].notes[i]\<close>), as the visualizer reads it.\<close>

record MidiNote =
  m_midi :: int
  m_time :: real
  m_duration :: real
  m_velocity :: real

type_synonym Track = "MidiNote list"
type_synonym Midi = "Track list"

datatype HandFilter = Both | Left | Right

subsection \<open>Constants\<close>

definition KEYBOARD_WIDTH :: real where "KEYBOARD_WIDTH = 60"
definition WHITE_KEY_WIDTH :: real where "WHITE_KEY_WIDTH = KEYBOARD_WIDTH / 52"
definition BLACK_KEY_WIDTH :: real where "BLACK_KEY_WIDTH = WHITE_KEY_WIDTH * 0.65"
definition NOTE_SPEED :: real where "NOTE_SPEED = 25"
definition FALL_HEIGHT :: real where "FALL_HEIGHT = 40"
definition SPAWN_Y :: real where "SPAWN_Y = FALL_HEIGHT"
definition HIT_Y :: real where "HIT_Y = 0"
definition VISIBLE_WINDOW :: real where "VISIBLE_WINDOW = FALL_HEIGHT / NOTE_SPEED"
definition KEY_Z :: real where "KEY_Z = 0"
definition SPAWN_Z :: real where "SPAWN_Z = - FALL_HEIGHT"
definition NOTE_GAP :: real where "NOTE_GAP = 0.1 * NOTE_SPEED"

definition COLORS_cyan :: string where "COLORS_cyan = ''#4dd0e1''"
definition COLORS_magenta :: string where "COLORS_magenta = ''#ce93d8''"

section \<open>Note layout: \<^verbatim>\<open>getNoteX\<close>\<close>

text \<open>
  JavaScript's \<^verbatim>\<open>%\<close> takes the sign of the dividend; \<^verbatim>\<open>[1, 3, 6, 8, 10].includes(n)\<close>
  is list membership.
\<close>

definition js_rem :: "int \<Rightarrow> int \<Rightarrow> int" where
  "js_rem a b = sgn a * (\<bar>a\<bar> mod \<bar>b\<bar>)"

definition blackClasses :: "int list" where
  "blackClasses = [1, 3, 6, 8, 10]"

definition list_includes :: "int list \<Rightarrow> int \<Rightarrow> bool" where
  "list_includes xs n = (n \<in> set xs)"

text \<open>
  The loop \<^verbatim>\<open>for (let i = 21; i < midi; i++)\<close> with its counter \<^verbatim>\<open>whiteKeyCount\<close>.
\<close>

function whiteKeyLoop :: "int \<Rightarrow> int \<Rightarrow> nat \<Rightarrow> nat" where
  "whiteKeyLoop i midi whiteKeyCount =
     (if i < midi
      then whiteKeyLoop (i + 1) midi
             (if \<not> list_includes blackClasses (js_rem i 12) then whiteKeyCount + 1 else whiteKeyCount)
      else whiteKeyCount)"
  by pat_completeness auto
termination
  by (relation "measure (\<lambda>(i, midi, c). nat (midi - i))") auto

declare whiteKeyLoop.simps [simp del]

record Lane =
  lane_x :: real
  lane_width :: real
  lane_isBlack :: bool

definition getNoteX :: "int \<Rightarrow> Lane" where
  "getNoteX midi =
     (let whiteKeyCount = whiteKeyLoop 21 midi 0;
          n = js_rem midi 12;
          isBlack = list_includes blackClasses n;
          offset = - KEYBOARD_WIDTH / 2
      in if isBlack
         then \<lparr>lane_x = offset + (real whiteKeyCount + 0.5) * WHITE_KEY_WIDTH,
               lane_width = BLACK_KEY_WIDTH,
               lane_isBlack = True\<rparr>
         else \<lparr>lane_x = offset + real whiteKeyCount * WHITE_KEY_WIDTH + WHITE_KEY_WIDTH / 2,
               lane_width = WHITE_KEY_WIDTH * 0.9,
               lane_isBlack = False\<rparr>)"

text \<open>The key table of \<^verbatim>\<open>PianoKeys\<close>: one entry per pitch from 21 to 108.\<close>

record Key =
  k_midi :: int
  k_x :: real
  k_width :: real
  k_isBlack :: bool

definition PianoKeys_keys :: "Key list" where
  "PianoKeys_keys =
     map (\<lambda>i. let l = getNoteX i
               in \<lparr>k_midi = i, k_x = lane_x l, k_width = lane_width l, k_isBlack = lane_isBlack l\<rparr>)
         [21..108]"

definition COLORS_whiteKey :: string where "COLORS_whiteKey = ''#f5f5f5''"
definition COLORS_blackKey :: string where "COLORS_blackKey = ''#1a1a1a''"

text \<open>
  \<^verbatim>\<open>keys.find(k => k.midi === midi)\<close>, and the body of the callback that the frame
  callback of \<^verbatim>\<open>PianoKeys\<close> runs for one active pitch: the arguments of its call of
  \<^verbatim>\<open>onSpawnParticles\<close>, or \<open>None\<close> when \<^verbatim>\<open>if (key)\<close> fails and nothing is called.
\<close>

definition PianoKeys_find :: "int \<Rightarrow> Key option" where
  "PianoKeys_find midi = List.find (\<lambda>k. k_midi k = midi) PianoKeys_keys"

definition PianoKeys_forEach :: "int \<Rightarrow> (real \<times> string) option" where
  "PianoKeys_forEach midi =
     (case PianoKeys_find midi of
        None \<Rightarrow> None
      | Some key \<Rightarrow>
          let isLeft = (midi < 60);
              color = (if isLeft then COLORS_magenta else COLORS_cyan)
          in Some (k_x key, color))"

text \<open>
  The frame callback of \<^verbatim>\<open>PianoKeys\<close>, given the members of \<^verbatim>\<open>activeNotes\<close> in the
  order in which \<^verbatim>\<open>forEach\<close> visits them: the calls of \<^verbatim>\<open>onSpawnParticles\<close> it makes.
\<close>

definition PianoKeys_useFrame :: "int list \<Rightarrow> (real \<times> string) list" where
  "PianoKeys_useFrame active = List.map_filter PianoKeys_forEach active"

text \<open>
  What \<^verbatim>\<open>PianoKeys\<close> draws for each key of its table: the pitch, whether the key is
  active, its colour and its emissive intensity.
\<close>

record KeyView =
  kv_midi :: int
  kv_isActive :: bool
  kv_color :: string
  kv_emissiveIntensity :: real

definition PianoKeys_render :: "int set \<Rightarrow> KeyView list" where
  "PianoKeys_render activeNotes =
     map (\<lambda>key.
            let isActive = (k_midi key \<in> activeNotes);
                isLeft = (k_midi key < 60);
                baseColor = (if k_isBlack key then COLORS_blackKey else COLORS_whiteKey);
                activeColor = (if isLeft then COLORS_magenta else COLORS_cyan);
                emissiveIntensity = (if isActive then 2.5 else 0)
            in \<lparr>kv_midi = k_midi key, kv_isActive = isActive,
                 kv_color = (if isActive then activeColor else baseColor),
                 kv_emissiveIntensity = emissiveIntensity\<rparr>)
         PianoKeys_keys"

section \<open>Building the note list\<close>

text \<open>
  The body of the inner \<^verbatim>\<open>track.notes.forEach\<close> callback of the \<^verbatim>\<open>notes\<close> memo:
  \<open>None\<close> when the hand filter returns before the push.
\<close>

definition buildNote :: "HandFilter \<Rightarrow> nat \<Rightarrow> nat \<Rightarrow> MidiNote \<Rightarrow> NoteData option" where
  "buildNote handFilter trackIndex i n =
     (let l = getNoteX (m_midi n);
          isLeft = (m_midi n < 60)
      in if handFilter = Left \<and> \<not> isLeft then None
         else if handFilter = Right \<and> isLeft then None
         else Some \<lparr>n_id = NoteId trackIndex i (m_time n),
                    n_midi = m_midi n,
                    n_time = m_time n,
                    n_duration = m_duration n,
                    n_velocity = m_velocity n,
                    n_isBlack = lane_isBlack l,
                    n_x = lane_x l,
                    n_width = lane_width l,
                    n_color = (if isLeft then COLORS_magenta else COLORS_cyan),
                    n_hit = False\<rparr>)"

definition allNotes :: "Midi \<Rightarrow> HandFilter \<Rightarrow> NoteData list" where
  "allNotes midi handFilter =
     concat (map (\<lambda>(trackIndex, track).
                    List.map_filter (\<lambda>(i, n). buildNote handFilter trackIndex i n)
                      (enumerate 0 track))
                 (enumerate 0 midi))"

text \<open>
  The \<^verbatim>\<open>notes\<close> memo of \<^verbatim>\<open>PianoScene\<close>; \<^verbatim>\<open>Array.prototype.sort\<close> is stable, as is
  \<^const>\<open>sort_key\<close>.  \<^verbatim>\<open>SynthesiaScene\<close> repeats the same code.
\<close>

definition PianoScene_notes :: "Midi option \<Rightarrow> HandFilter \<Rightarrow> NoteData list" where
  "PianoScene_notes midiData handFilter =
     (case midiData of
        None \<Rightarrow> []
      | Some midi \<Rightarrow> sort_key n_time (allNotes midi handFilter))"

definition SynthesiaScene_notes :: "Midi option \<Rightarrow> HandFilter \<Rightarrow> NoteData list" where
  "SynthesiaScene_notes midiData handFilter =
     (case midiData of
        None \<Rightarrow> []
      | Some midi \<Rightarrow> sort_key n_time (allNotes midi handFilter))"

section \<open>The two note views\<close>

text \<open>What a \<^verbatim>\<open>RoundedBox\<close> is given: its key, position and the three extents of \<^verbatim>\<open>args\<close>.\<close>

record Box =
  box_key :: NoteId
  box_position :: Vector3
  box_args :: Vector3
  box_color :: string

text \<open>The callback of \<^verbatim>\<open>notes.map\<close> in \<^verbatim>\<open>FallingNotes\<close> (the fall view).\<close>

definition FallingNotes_note :: "real \<Rightarrow> NoteData \<Rightarrow> Box option" where
  "FallingNotes_note currentTime note =
     (let timeUntilHit = n_time note - currentTime
      in if timeUntilHit > VISIBLE_WINDOW \<or> timeUntilHit + n_duration note < - 0.5 then None
         else
           let fullHeight = n_duration note * NOTE_SPEED;
               height = max 0.1 (fullHeight - NOTE_GAP);
               y = HIT_Y + timeUntilHit * NOTE_SPEED + height / 2
           in Some \<lparr>box_key = n_id note,
                     box_position = Vector3 (n_x note) y (- 2.5),
                     box_args = Vector3 (n_width note) height 0.5,
                     box_color = n_color note\<rparr>)"

definition FallingNotes :: "NoteData list \<Rightarrow> real \<Rightarrow> Box option list" where
  "FallingNotes notes currentTime = map (FallingNotes_note currentTime) notes"

text \<open>The callback of \<^verbatim>\<open>notes.map\<close> in \<^verbatim>\<open>SynthesiaFallingNotes\<close> (the recede view).\<close>

definition SynthesiaFallingNotes_note :: "real \<Rightarrow> NoteData \<Rightarrow> Box option" where
  "SynthesiaFallingNotes_note currentTime note =
     (let timeUntilHit = n_time note - currentTime
      in if timeUntilHit > VISIBLE_WINDOW \<or> timeUntilHit + n_duration note < 0 then None
         else
           let fullDepthOriginal = n_duration note * NOTE_SPEED;
               fullDepth = max 0.1 (fullDepthOriginal - NOTE_GAP);
               currentDepth0 = fullDepth;
               zCenter0 = (KEY_Z - timeUntilHit * NOTE_SPEED) - currentDepth0 / 2;
               (currentDepth, zCenter) =
                 (if timeUntilHit < 0
                  then let passedDepth = - timeUntilHit * NOTE_SPEED;
                           currentDepth1 = max 0 (fullDepth - passedDepth)
                       in (currentDepth1, KEY_Z - currentDepth1 / 2)
                  else (currentDepth0, zCenter0))
           in if currentDepth \<le> 0 then None
              else
                let keyHeight = 1
                in Some \<lparr>box_key = n_id note,
                          box_position = Vector3 (n_x note) keyHeight zCenter,
                          box_args = Vector3 (n_width note) 0.5 currentDepth,
                          box_color = n_color note\<rparr>)"

definition SynthesiaFallingNotes :: "NoteData list \<Rightarrow> real \<Rightarrow> Box option list" where
  "SynthesiaFallingNotes notes currentTime = map (SynthesiaFallingNotes_note currentTime) notes"



subsection \<open>The per-frame callbacks of the two views\<close>

text \<open>
  Each view keeps one piece of state between frames, the ref \<^verbatim>\<open>lastSpawnedNotes\<close>.  A
  frame's state is the triple of the local \<^verbatim>\<open>visibleNoteIds\<close>, the calls of
  \<^verbatim>\<open>onSpawnSparkles\<close> made so far (their three arguments), and \<^verbatim>\<open>lastSpawnedNotes\<close>.
\<close>

type_synonym SparkleCall = "real \<times> real \<times> string"
type_synonym FrameState = "NoteId set \<times> SparkleCall list \<times> NoteId set"

definition FallingNotes_forEach :: "real \<Rightarrow> NoteData \<Rightarrow> FrameState \<Rightarrow> FrameState" where
  "FallingNotes_forEach currentTime note =
     (\<lambda>(visibleNoteIds, calls, lastSpawnedNotes).
        let timeUntilHit = n_time note - currentTime
        in if timeUntilHit > VISIBLE_WINDOW \<or> timeUntilHit + n_duration note < - 0.5
           then (visibleNoteIds, calls, lastSpawnedNotes)
           else
             let visibleNoteIds' = insert (n_id note) visibleNoteIds
             in if n_id note \<notin> lastSpawnedNotes \<and> timeUntilHit > 0 \<and> timeUntilHit < VISIBLE_WINDOW
                then let y = HIT_Y + timeUntilHit * NOTE_SPEED + (n_duration note * NOTE_SPEED) / 2
                     in (visibleNoteIds', calls @ [(n_x note, y, n_color note)],
                         insert (n_id note) lastSpawnedNotes)
                else (visibleNoteIds', calls, lastSpawnedNotes))"

definition FallingNotes_useFrame :: "NoteData list \<Rightarrow> real \<Rightarrow> NoteId set \<Rightarrow> FrameState" where
  "FallingNotes_useFrame notes currentTime lastSpawnedNotes =
     (case fold (FallingNotes_forEach currentTime) notes ({}, [], lastSpawnedNotes) of
        (visibleNoteIds, calls, lastSpawned1) \<Rightarrow>
          (visibleNoteIds, calls, Set.filter (\<lambda>i. i \<in> visibleNoteIds) lastSpawned1))"

definition SynthesiaFallingNotes_forEach :: "real \<Rightarrow> NoteData \<Rightarrow> FrameState \<Rightarrow> FrameState" where
  "SynthesiaFallingNotes_forEach currentTime note =
     (\<lambda>(visibleNoteIds, calls, lastSpawnedNotes).
        let timeUntilHit = n_time note - currentTime
        in if timeUntilHit > VISIBLE_WINDOW \<or> timeUntilHit + n_duration note < 0
           then (visibleNoteIds, calls, lastSpawnedNotes)
           else
             let visibleNoteIds' = insert (n_id note) visibleNoteIds
             in if n_id note \<notin> lastSpawnedNotes \<and> timeUntilHit > 0 \<and> timeUntilHit < VISIBLE_WINDOW
                then let z = KEY_Z - (timeUntilHit * NOTE_SPEED + (n_duration note * NOTE_SPEED) / 2)
                     in (visibleNoteIds', calls @ [(n_x note, z, n_color note)],
                         insert (n_id note) lastSpawnedNotes)
                else (visibleNoteIds', calls, lastSpawnedNotes))"

definition SynthesiaFallingNotes_useFrame ::
    "NoteData list \<Rightarrow> real \<Rightarrow> NoteId set \<Rightarrow> FrameState" where
  "SynthesiaFallingNotes_useFrame notes currentTime lastSpawnedNotes =
     (case fold (SynthesiaFallingNotes_forEach currentTime) notes ({}, [], lastSpawnedNotes) of
        (visibleNoteIds, calls, lastSpawned1) \<Rightarrow>
          (visibleNoteIds, calls, Set.filter (\<lambda>i. i \<in> visibleNoteIds) lastSpawned1))"

section \<open>Active notes\<close>

text \<open>The \<^verbatim>\<open>activeNotes\<close> memo; both scenes carry the same code.\<close>

definition PianoScene_activeNotes :: "real \<Rightarrow> NoteData list \<Rightarrow> int set" where
  "PianoScene_activeNotes animTime notes =
     fold (\<lambda>n active.
             if animTime \<ge> n_time n \<and> animTime < n_time n + n_duration n
             then insert (n_midi n) active else active)
          notes {}"

definition SynthesiaScene_activeNotes :: "real \<Rightarrow> NoteData list \<Rightarrow> int set" where
  "SynthesiaScene_activeNotes animTime notes =
     fold (\<lambda>n active.
             if animTime \<ge> n_time n \<and> animTime < n_time n + n_duration n
             then insert (n_midi n) active else active)
          notes {}"

section \<open>The scenes' sampled time\<close>

text \<open>
  Each scene keeps the React state \<^verbatim>\<open>animTime\<close> (\<^verbatim>\<open>useState(0)\<close>).  Its frame
  callback reads the clock \<^verbatim>\<open>currentTimeRef.current\<close> and calls \<^verbatim>\<open>setAnimTime\<close> only
  when the two differ by more than 0.001; the function gives the state after the frame.
\<close>

definition PianoScene_useFrame :: "real \<Rightarrow> real \<Rightarrow> real" where
  "PianoScene_useFrame currentTimeRef animTime =
     (if \<bar>currentTimeRef - animTime\<bar> > 0.001 then currentTimeRef else animTime)"

definition SynthesiaScene_useFrame :: "real \<Rightarrow> real \<Rightarrow> real" where
  "SynthesiaScene_useFrame currentTimeRef animTime =
     (if \<bar>currentTimeRef - animTime\<bar> > 0.001 then currentTimeRef else animTime)"

text \<open>
  The state after a run of frames that read the given clock values one after the other,
  from the initial state 0.
\<close>

definition PianoScene_frames :: "real list \<Rightarrow> real" where
  "PianoScene_frames clocks = fold PianoScene_useFrame clocks 0"

definition SynthesiaScene_frames :: "real list \<Rightarrow> real" where
  "SynthesiaScene_frames clocks = fold SynthesiaScene_useFrame clocks 0"

text \<open>
  What a scene renders from its state: the active set it hands to \<^verbatim>\<open>PianoKeys\<close> and the
  boxes of its note view, which gets \<^verbatim>\<open>currentTime={animTime}\<close>.
\<close>

definition PianoScene_render :: "NoteData list \<Rightarrow> real \<Rightarrow> int set \<times> Box option list" where
  "PianoScene_render ns animTime = (PianoScene_activeNotes animTime ns, FallingNotes ns animTime)"

definition SynthesiaScene_render :: "NoteData list \<Rightarrow> real \<Rightarrow> int set \<times> Box option list" where
  "SynthesiaScene_render ns animTime =
     (SynthesiaScene_activeNotes animTime ns, SynthesiaFallingNotes ns animTime)"

section \<open>Effect pools\<close>

text \<open>
  A three.js \<^verbatim>\<open>Color\<close> is kept as the CSS string it was built from and the factor
  \<^verbatim>\<open>multiplyScalar\<close> applied to its channels (1 for a fresh colour).
\<close>

datatype Color = Color string real

record Particle =
  p_position :: Vector3
  p_velocity :: Vector3
  p_color :: Color
  p_life :: real
  p_maxLife :: real
  p_size :: real

record Sparkle = Particle +
  s_rotation :: real
  s_rotationSpeed :: real

subsection \<open>Spawning\<close>

text \<open>
  \<^verbatim>\<open>Math.random()\<close> is an input: \<open>rnd k\<close> is the value of the \<open>k\<close>-th draw of one
  spawn call, in evaluation order.  The pool is the array \<^verbatim>\<open>particlesRef.current\<close>
  (\<^verbatim>\<open>sparklesRef.current\<close>); \<^verbatim>\<open>push\<close> appends.
\<close>

definition PianoScene_newParticle :: "(nat \<Rightarrow> real) \<Rightarrow> real \<Rightarrow> string \<Rightarrow> nat \<Rightarrow> Particle" where
  "PianoScene_newParticle rnd x color i =
     (let angle = rnd (5 * i) * pi - pi / 2;
          speed = rnd (5 * i + 1) * 15 + 8;
          life = 1.0 + rnd (5 * i + 2) * 0.5
      in \<lparr>p_position = Vector3 (x + 0.3) (HIT_Y + 3) (- 1),
          p_velocity = Vector3 (sin angle * speed * 0.8) (cos angle * speed * 1.2)
                         ((rnd (5 * i + 3) - 0.5) * 5),
          p_color = Color color 1.5,
          p_life = life,
          p_maxLife = life,
          p_size = rnd (5 * i + 4) * 0.1 + 0.3\<rparr>)"

definition PianoScene_spawnParticles ::
    "(nat \<Rightarrow> real) \<Rightarrow> real \<Rightarrow> string \<Rightarrow> Particle list \<Rightarrow> Particle list" where
  "PianoScene_spawnParticles rnd x color particles =
     (let maxParticles = 500;
          currentCount = int (length particles);
          availableSlots = maxParticles - currentCount
      in if availableSlots \<le> 0 then particles
         else
           let particleCount = min 10 availableSlots
           in particles @ map (PianoScene_newParticle rnd x color) [0..<nat particleCount])"

definition PianoScene_newSparkle :: "(nat \<Rightarrow> real) \<Rightarrow> real \<Rightarrow> real \<Rightarrow> string \<Rightarrow> nat \<Rightarrow> Sparkle" where
  "PianoScene_newSparkle rnd x y color i =
     (let offsetX = (rnd (1 + 8 * i) - 0.5) * 2;
          offsetY = rnd (1 + 8 * i + 1) * 10 + 2
      in \<lparr>p_position = Vector3 (x + offsetX) (y + offsetY) (- 2),
          p_velocity = Vector3 ((rnd (1 + 8 * i + 2) - 0.5) * 2)
                         (- NOTE_SPEED * 0.8 - rnd (1 + 8 * i + 3) * 5)
                         ((rnd (1 + 8 * i + 4) - 0.5) * 1),
          p_color = Color color 1,
          p_life = 1.0,
          p_maxLife = 1.0,
          p_size = rnd (1 + 8 * i + 5) * 0.15 + 0.1,
          s_rotation = rnd (1 + 8 * i + 6) * pi * 2,
          s_rotationSpeed = (rnd (1 + 8 * i + 7) - 0.5) * 10\<rparr>)"

definition PianoScene_spawnSparkles ::
    "(nat \<Rightarrow> real) \<Rightarrow> real \<Rightarrow> real \<Rightarrow> string \<Rightarrow> Sparkle list \<Rightarrow> Sparkle list" where
  "PianoScene_spawnSparkles rnd x y color sparkles =
     (let maxSparkles = 500;
          currentCount = int (length sparkles);
          availableSlots = maxSparkles - currentCount
      in if availableSlots \<le> 0 then sparkles
         else
           let sparkleCount = min (3 + \<lfloor>rnd 0 * 3\<rfloor>) availableSlots
           in sparkles @ map (PianoScene_newSparkle rnd x y color) [0..<nat sparkleCount])"

definition SynthesiaScene_newParticle :: "(nat \<Rightarrow> real) \<Rightarrow> real \<Rightarrow> string \<Rightarrow> nat \<Rightarrow> Particle" where
  "SynthesiaScene_newParticle rnd x color i =
     (let angle = rnd (5 * i) * pi * 2;
          speed = rnd (5 * i + 1) * 10 + 5;
          life = 0.8 + rnd (5 * i + 2) * 0.4
      in \<lparr>p_position = Vector3 x 1 0,
          p_velocity = Vector3 (sin angle * speed * 0.5) (rnd (5 * i + 3) * 5 + 2)
                         (cos angle * speed * 0.5),
          p_color = Color color 1.5,
          p_life = life,
          p_maxLife = life,
          p_size = rnd (5 * i + 4) * 0.1 + 0.2\<rparr>)"

definition SynthesiaScene_spawnParticles ::
    "(nat \<Rightarrow> real) \<Rightarrow> real \<Rightarrow> string \<Rightarrow> Particle list \<Rightarrow> Particle list" where
  "SynthesiaScene_spawnParticles rnd x color particles =
     (let maxParticles = 500;
          currentCount = int (length particles);
          availableSlots = maxParticles - currentCount
      in if availableSlots \<le> 0 then particles
         else
           let particleCount = min 10 availableSlots
           in particles @ map (SynthesiaScene_newParticle rnd x color) [0..<nat particleCount])"

definition SynthesiaScene_newSparkle :: "(nat \<Rightarrow> real) \<Rightarrow> real \<Rightarrow> real \<Rightarrow> string \<Rightarrow> nat \<Rightarrow> Sparkle" where
  "SynthesiaScene_newSparkle rnd x z color i =
     (let offsetX = (rnd (7 * i) - 0.5) * 2;
          offsetZ = (rnd (7 * i + 1) - 0.5) * 2
      in \<lparr>p_position = Vector3 (x + offsetX) 2 (z + offsetZ),
          p_velocity = Vector3 ((rnd (7 * i + 2) - 0.5) * 1) (rnd (7 * i + 3) * 2) NOTE_SPEED,
          p_color = Color color 1,
          p_life = 1.0,
          p_maxLife = 1.0,
          p_size = rnd (7 * i + 4) * 0.1 + 0.1,
          s_rotation = rnd (7 * i + 5) * pi * 2,
          s_rotationSpeed = (rnd (7 * i + 6) - 0.5) * 5\<rparr>)"

definition SynthesiaScene_spawnSparkles ::
    "(nat \<Rightarrow> real) \<Rightarrow> real \<Rightarrow> real \<Rightarrow> string \<Rightarrow> Sparkle list \<Rightarrow> Sparkle list" where
  "SynthesiaScene_spawnSparkles rnd x z color sparkles =
     (let maxSparkles = 500;
          currentCount = int (length sparkles);
          availableSlots = maxSparkles - currentCount
      in if availableSlots \<le> 0 then sparkles
         else
           let sparkleCount = min 2 availableSlots
           in sparkles @ map (SynthesiaScene_newSparkle rnd x z color) [0..<nat sparkleCount])"

subsection \<open>Advancing\<close>

text \<open>
  What a frame writes into the instanced mesh for one member: \<^verbatim>\<open>setMatrixAt\<close> gets a
  matrix composed of the position, a rotation (the camera's for a particle, the sparkle's
  own angle about z) and the uniform scale; \<^verbatim>\<open>setColorAt\<close> gets the colour.  The camera's
  quaternion is not part of the model.
\<close>

record ParticleInstance =
  pi_position :: Vector3
  pi_scale :: real
  pi_color :: Color

record SparkleInstance =
  si_position :: Vector3
  si_rotation :: real
  si_scale :: real
  si_color :: Color

definition v_add :: "Vector3 \<Rightarrow> Vector3 \<Rightarrow> Vector3" where
  "v_add a b = Vector3 (vx a + vx b) (vy a + vy b) (vz a + vz b)"

definition multiplyScalar :: "Vector3 \<Rightarrow> real \<Rightarrow> Vector3" where
  "multiplyScalar a s = Vector3 (vx a * s) (vy a * s) (vz a * s)"

definition ParticleSystem_COUNT :: nat where "ParticleSystem_COUNT = 1000"
definition SparkleSystem_COUNT :: nat where "SparkleSystem_COUNT = 500"

text \<open>
  The loop \<^verbatim>\<open>for (let i = particles.length - 1; i >= 0; i--)\<close>: the members after index
  \<open>i\<close> are visited before member \<open>i\<close>, and \<^verbatim>\<open>splice(i, 1)\<close> moves none of the members
  still to visit.  The result is the array after the loop and the instances written, in
  the order of their slots (\<^verbatim>\<open>activeCount\<close> is the number written so far).
\<close>

fun ParticleSystem_loop :: "real \<Rightarrow> Particle list \<Rightarrow> Particle list \<times> ParticleInstance list" where
  "ParticleSystem_loop delta [] = ([], [])"
| "ParticleSystem_loop delta (p # particles) =
     (case ParticleSystem_loop delta particles of
        (kept, instances) \<Rightarrow>
          let activeCount = length instances;
              p1 = p\<lparr>p_life := p_life p - delta * 1.2\<rparr>
          in if p_life p1 \<le> 0 then (kept, instances)
             else if activeCount \<ge> ParticleSystem_COUNT then (kept, instances)
             else
               let p2 = p1\<lparr>p_velocity := Vector3 (vx (p_velocity p1))
                                              (vy (p_velocity p1) - 20 * delta)
                                              (vz (p_velocity p1))\<rparr>;
                   p3 = p2\<lparr>p_position :=
                             v_add (p_position p2) (multiplyScalar (p_velocity p2) delta)\<rparr>;
                   scale = p_size p3 * (p_life p3 / p_maxLife p3)
               in (p3 # kept,
                   instances @ [\<lparr>pi_position = p_position p3, pi_scale = scale,
                                  pi_color = p_color p3\<rparr>]))"

text \<open>
  The frame callback of \<^verbatim>\<open>ParticleSystem\<close>.  \<open>mounted\<close> says that
  \<^verbatim>\<open>instancedMeshRef.current\<close> is set; without it the callback returns at once and
  writes nothing (\<open>None\<close>).
\<close>

definition ParticleSystem_useFrame ::
    "bool \<Rightarrow> real \<Rightarrow> Particle list \<Rightarrow> Particle list \<times> ParticleInstance list option" where
  "ParticleSystem_useFrame mounted delta particles =
     (if \<not> mounted then (particles, None)
      else case ParticleSystem_loop delta particles of
             (kept, instances) \<Rightarrow> (kept, Some instances))"

fun SparkleSystem_loop :: "real \<Rightarrow> Sparkle list \<Rightarrow> Sparkle list \<times> SparkleInstance list" where
  "SparkleSystem_loop delta [] = ([], [])"
| "SparkleSystem_loop delta (s # sparkles) =
     (case SparkleSystem_loop delta sparkles of
        (kept, instances) \<Rightarrow>
          let activeCount = length instances;
              s1 = s\<lparr>p_life := p_life s - delta * 1.5,
                      s_rotation := s_rotation s + s_rotationSpeed s * delta\<rparr>
          in if p_life s1 \<le> 0 then (kept, instances)
             else if activeCount \<ge> SparkleSystem_COUNT then (kept, instances)
             else
               let s2 = s1\<lparr>p_velocity := Vector3 (vx (p_velocity s1))
                                              (vy (p_velocity s1) - 5 * delta)
                                              (vz (p_velocity s1))\<rparr>;
                   s3 = s2\<lparr>p_position :=
                             v_add (p_position s2) (multiplyScalar (p_velocity s2) delta)\<rparr>;
                   scale = p_size s3 * (p_life s3 / p_maxLife s3)
               in (s3 # kept,
                   instances @ [\<lparr>si_position = p_position s3, si_rotation = s_rotation s3,
                                  si_scale = scale, si_color = p_color s3\<rparr>]))"

definition SparkleSystem_useFrame ::
    "bool \<Rightarrow> real \<Rightarrow> Sparkle list \<Rightarrow> Sparkle list \<times> SparkleInstance list option" where
  "SparkleSystem_useFrame mounted delta sparkles =
     (if \<not> mounted then (sparkles, None)
      else case SparkleSystem_loop delta sparkles of
             (kept, instances) \<Rightarrow> (kept, Some instances))"

subsection \<open>The pools a scene can reach\<close>

text \<open>
  A pool starts empty (\<^verbatim>\<open>useRef([])\<close>) and is touched only by the spawn function of its
  scene and by the frame callback of its system.  The two predicates collect the pools
  of both scenes.
\<close>

inductive particle_pool :: "Particle list \<Rightarrow> bool" where
  pp_empty: "particle_pool []"
| pp_spawn_piano:
    "particle_pool ps \<Longrightarrow> particle_pool (PianoScene_spawnParticles rnd x color ps)"
| pp_spawn_synthesia:
    "particle_pool ps \<Longrightarrow> particle_pool (SynthesiaScene_spawnParticles rnd x color ps)"
| pp_frame:
    "particle_pool ps \<Longrightarrow> particle_pool (fst (ParticleSystem_useFrame mounted delta ps))"

inductive sparkle_pool :: "Sparkle list \<Rightarrow> bool" where
  sp_empty: "sparkle_pool []"
| sp_spawn_piano:
    "sparkle_pool ss \<Longrightarrow> sparkle_pool (PianoScene_spawnSparkles rnd x y color ss)"
| sp_spawn_synthesia:
    "sparkle_pool ss \<Longrightarrow> sparkle_pool (SynthesiaScene_spawnSparkles rnd x z color ss)"
| sp_frame:
    "sparkle_pool ss \<Longrightarrow> sparkle_pool (fst (SparkleSystem_useFrame mounted delta ss))"

subsection \<open>The pool contract in the words of the specification\<close>

text \<open>
  These four definitions follow the specification's description of \<^verbatim>\<open>advance(dt)\<close>, not
  the code: life decremented by \<open>dt * fadeRate\<close>, a constant downward acceleration on the
  velocity, the position moved by velocity times \<open>dt\<close>, for a sparkle the rotation moved
  by the angular velocity times \<open>dt\<close>, and the scale \<open>size * (life / maxLife)\<close> for
  drawing.  The frame loops above are compared with them.
\<close>

definition spec_advance_particle ::
    "real \<Rightarrow> real \<Rightarrow> real \<Rightarrow> 'a Particle_scheme \<Rightarrow> 'a Particle_scheme" where
  "spec_advance_particle fadeRate gravity dt p =
     p\<lparr>p_life := p_life p - dt * fadeRate,
       p_velocity := Vector3 (vx (p_velocity p)) (vy (p_velocity p) - gravity * dt)
                       (vz (p_velocity p)),
       p_position := Vector3 (vx (p_position p) + vx (p_velocity p) * dt)
                       (vy (p_position p) + (vy (p_velocity p) - gravity * dt) * dt)
                       (vz (p_position p) + vz (p_velocity p) * dt)\<rparr>"

definition spec_advance_sparkle :: "real \<Rightarrow> Sparkle \<Rightarrow> Sparkle" where
  "spec_advance_sparkle dt s =
     (spec_advance_particle 1.5 5 dt s)\<lparr>s_rotation := s_rotation s + s_rotationSpeed s * dt\<rparr>"

definition spec_particle_instance :: "Particle \<Rightarrow> ParticleInstance" where
  "spec_particle_instance p =
     \<lparr>pi_position = p_position p, pi_scale = p_size p * (p_life p / p_maxLife p),
      pi_color = p_color p\<rparr>"

definition spec_sparkle_instance :: "Sparkle \<Rightarrow> SparkleInstance" where
  "spec_sparkle_instance s =
     \<lparr>si_position = p_position s, si_rotation = s_rotation s,
      si_scale = p_size s * (p_life s / p_maxLife s), si_color = p_color s\<rparr>"

subsection \<open>A sample note\<close>

text \<open>
  The note that the \<^verbatim>\<open>notes\<close> memo builds from a score of one track holding one note
  (velocity 1), used to run the definitions on concrete values.
\<close>

definition demoNote :: "int \<Rightarrow> real \<Rightarrow> real \<Rightarrow> NoteData" where
  "demoNote pitch onset dur =
     \<lparr>n_id = NoteId 0 0 onset, n_midi = pitch, n_time = onset, n_duration = dur,
      n_velocity = 1, n_isBlack = lane_isBlack (getNoteX pitch), n_x = lane_x (getNoteX pitch),
      n_width = lane_width (getNoteX pitch),
      n_color = (if pitch < 60 then COLORS_magenta else COLORS_cyan), n_hit = False\<rparr>"

section \<open>Basic facts\<close>

lemmas constants_defs =
  KEYBOARD_WIDTH_def WHITE_KEY_WIDTH_def BLACK_KEY_WIDTH_def NOTE_SPEED_def FALL_HEIGHT_def
  SPAWN_Y_def HIT_Y_def VISIBLE_WINDOW_def KEY_Z_def SPAWN_Z_def NOTE_GAP_def

lemma demoNote_built:
  "PianoScene_notes (Some [[\<lparr>m_midi = pitch, m_time = onset, m_duration = dur, m_velocity = 1\<rparr>]]) Both
     = [demoNote pitch onset dur]"
  by (simp add: PianoScene_notes_def allNotes_def buildNote_def demoNote_def List.map_filter_def
      enumerate_eq_zip Let_def)

lemma demoNote_sel [simp]:
  "n_midi (demoNote p on d) = p" "n_time (demoNote p on d) = on"
  "n_duration (demoNote p on d) = d" "n_id (demoNote p on d) = NoteId 0 0 on"
  by (simp_all add: demoNote_def)

section \<open>The fall view's visible window\<close>

text \<open>
  C1.  In the fall view a note is rendered exactly when \<open>onset - t \<le> W\<close> and
  \<open>(onset - t) + duration \<ge> - g\<close>, where \<open>W\<close> is the fall distance over the fall speed,
  \<open>40 / 25 = 1.6\<close> seconds, and \<open>g = 0.5\<close> seconds.  A note with onset 5 and duration 1
  is rendered at \<open>t = 3.5\<close> and is rendered neither at \<open>t = 3.3\<close> nor at \<open>t = 6.6\<close>.
\<close>

theorem C1_fall_visible_window:
  "((FallingNotes_note t note \<noteq> None) =
      (n_time note - t \<le> VISIBLE_WINDOW \<and> (n_time note - t) + n_duration note \<ge> - 0.5))
   \<and> VISIBLE_WINDOW = FALL_HEIGHT / NOTE_SPEED \<and> VISIBLE_WINDOW = 40 / 25
   \<and> VISIBLE_WINDOW = 1.6
   \<and> FallingNotes_note 3.5 (note\<lparr>n_time := 5, n_duration := 1\<rparr>) \<noteq> None
   \<and> FallingNotes_note 3.3 (note\<lparr>n_time := 5, n_duration := 1\<rparr>) = None
   \<and> FallingNotes_note 6.6 (note\<lparr>n_time := 5, n_duration := 1\<rparr>) = None"
  by (auto simp: FallingNotes_note_def Let_def constants_defs)

theorem C1_witness:
  "FallingNotes_note 1 (demoNote 60 2 0.5) \<noteq> None
   \<and> n_time (demoNote 60 2 0.5) - 1 \<le> VISIBLE_WINDOW
   \<and> FallingNotes_note 0 (demoNote 60 2 0.5) = None"
proof -
  have w: "VISIBLE_WINDOW = 8 / 5" by (simp add: constants_defs)
  have "FallingNotes_note 1 (demoNote 60 2 0.5) \<noteq> None"
    using C1_fall_visible_window [of 1 "demoNote 60 2 0.5"] by (simp add: w)
  moreover have "FallingNotes_note 0 (demoNote 60 2 0.5) = None"
    using C1_fall_visible_window [of 0 "demoNote 60 2 0.5"] by (simp add: w)
  ultimately show ?thesis by (simp add: w)
qed

section \<open>The active pitches\<close>

lemma activeNotes_fold:
  "fold (\<lambda>n active. if t \<ge> n_time n \<and> t < n_time n + n_duration n
                      then insert (n_midi n) active else active) ns A
   = A \<union> {n_midi n | n. n \<in> set ns \<and> n_time n \<le> t \<and> t < n_time n + n_duration n}"
  by (induction ns arbitrary: A) auto

text \<open>
  C3.  For every note list and every clock value \<open>t\<close>, the active set is the set of the
  pitches of the notes with \<open>onset \<le> t < onset + duration\<close>: a pitch is in it exactly
  when some note of that pitch is sounding at \<open>t\<close>, in both scenes.  For a list of one
  note, its pitch is in the set exactly when \<open>onset \<le> t < onset + duration\<close>; with onset 2
  and duration 0.5 that is for \<open>t\<close> in \<open>[2, 2.5)\<close>, so the pitch is absent at \<open>t = 2.5\<close>
  and at \<open>t = 1.999\<close>.
\<close>

theorem C3_active_pitches:
  "PianoScene_activeNotes t ns
     = {n_midi n | n. n \<in> set ns \<and> n_time n \<le> t \<and> t < n_time n + n_duration n}
   \<and> SynthesiaScene_activeNotes t ns
     = {n_midi n | n. n \<in> set ns \<and> n_time n \<le> t \<and> t < n_time n + n_duration n}
   \<and> (n_midi note \<in> PianoScene_activeNotes t [note])
       = (n_time note \<le> t \<and> t < n_time note + n_duration note)
   \<and> (n_midi note \<in> SynthesiaScene_activeNotes t [note])
       = (n_time note \<le> t \<and> t < n_time note + n_duration note)
   \<and> (n_midi note \<in> PianoScene_activeNotes t [note\<lparr>n_time := 2, n_duration := 0.5\<rparr>])
       = (2 \<le> t \<and> t < 2.5)
   \<and> n_midi note \<notin> PianoScene_activeNotes 2.5 [note\<lparr>n_time := 2, n_duration := 0.5\<rparr>]
   \<and> n_midi note \<notin> PianoScene_activeNotes 1.999 [note\<lparr>n_time := 2, n_duration := 0.5\<rparr>]"
  unfolding PianoScene_activeNotes_def SynthesiaScene_activeNotes_def activeNotes_fold
  by auto

theorem C3_witness:
  "60 \<in> PianoScene_activeNotes 2.25 [demoNote 60 2 0.5]
   \<and> 60 \<notin> PianoScene_activeNotes 2.5 [demoNote 60 2 0.5]
   \<and> PianoScene_activeNotes 2.25 [demoNote 60 2 0.5, demoNote 64 3 1] = {60}"
proof -
  have a: "60 \<in> PianoScene_activeNotes 2.25 [demoNote 60 2 0.5]"
    using C3_active_pitches [of "2.25" "[]" "demoNote 60 2 0.5"] by simp
  have b: "60 \<notin> PianoScene_activeNotes 2.5 [demoNote 60 2 0.5]"
    using C3_active_pitches [of "2.5" "[]" "demoNote 60 2 0.5"] by simp
  have "PianoScene_activeNotes 2.25 [demoNote 60 2 0.5, demoNote 64 3 1]
          = {n_midi n | n. n \<in> set [demoNote 60 2 0.5, demoNote 64 3 1]
                \<and> n_time n \<le> 2.25 \<and> 2.25 < n_time n + n_duration n}"
    using C3_active_pitches [of "2.25" "[demoNote 60 2 0.5, demoNote 64 3 1]"] by blast
  also have "\<dots> = {60}"
    by (auto intro!: exI [of _ "demoNote 60 2 (1 / 2)"])
  finally show ?thesis using a b by simp
qed

section \<open>The lane resolver\<close>

lemma js_rem_nonneg: "0 \<le> a \<Longrightarrow> js_rem a 12 = a mod 12"
  by (simp add: js_rem_def sgn_if)

lemma js_rem_neg: "a < 0 \<Longrightarrow> js_rem a 12 = - ((- a) mod 12)"
  by (simp add: js_rem_def sgn_if)

lemma list_includes_black: "list_includes blackClasses n = (n \<in> {1, 3, 6, 8, 10})"
  by (simp add: list_includes_def blackClasses_def)

lemma whiteKeyLoop_card:
  "whiteKeyLoop i midi c
     = c + card {q. i \<le> q \<and> q < midi \<and> \<not> list_includes blackClasses (js_rem q 12)}"
proof (induction i midi c rule: whiteKeyLoop.induct)
  case (1 i midi c)
  let ?W = "\<lambda>q. \<not> list_includes blackClasses (js_rem q 12)"
  show ?case
  proof (cases "i < midi")
    case False
    then have e: "{q. i \<le> q \<and> q < midi \<and> ?W q} = {}" by auto
    show ?thesis unfolding e using False by (simp add: whiteKeyLoop.simps [of i midi c])
  next
    case True
    let ?S = "{q. i + 1 \<le> q \<and> q < midi \<and> ?W q}"
    have fin: "finite ?S" by (rule finite_subset [of _ "{i + 1..<midi}"]) auto
    have notin: "i \<notin> ?S" by simp
    have split: "{q. i \<le> q \<and> q < midi \<and> ?W q} = (if ?W i then insert i ?S else ?S)"
      using True by (auto simp: order_le_less)
    have "whiteKeyLoop i midi c
            = whiteKeyLoop (i + 1) midi (if ?W i then c + 1 else c)"
      using True by (simp add: whiteKeyLoop.simps [of i midi c])
    also have "\<dots> = (if ?W i then c + 1 else c) + card ?S"
      using "1.IH" [OF True] by simp
    also have "\<dots> = c + card {q. i \<le> q \<and> q < midi \<and> ?W q}"
      using fin notin by (simp add: split)
    finally show ?thesis .
  qed
qed

lemma whiteKeyLoop_below: "midi \<le> i \<Longrightarrow> whiteKeyLoop i midi c = c"
  by (simp add: whiteKeyLoop.simps [of i midi c])

lemma whiteKeyLoop_109: "whiteKeyLoop 21 109 0 = 52"
  by code_simp

lemma whiteKeyLoop_split:
  "i \<le> j \<Longrightarrow> j \<le> midi \<Longrightarrow> whiteKeyLoop i midi c = whiteKeyLoop j midi (whiteKeyLoop i j c)"
proof -
  assume ij: "i \<le> j" and jm: "j \<le> midi"
  let ?W = "\<lambda>q. \<not> list_includes blackClasses (js_rem q 12)"
  let ?A = "{q. i \<le> q \<and> q < j \<and> ?W q}" and ?B = "{q. j \<le> q \<and> q < midi \<and> ?W q}"
  have fa: "finite ?A" by (rule finite_subset [of _ "{i..<j}"]) auto
  have fb: "finite ?B" by (rule finite_subset [of _ "{j..<midi}"]) auto
  have "{q. i \<le> q \<and> q < midi \<and> ?W q} = ?A \<union> ?B" using ij jm by auto
  moreover have "?A \<inter> ?B = {}" by auto
  ultimately have "card {q. i \<le> q \<and> q < midi \<and> ?W q} = card ?A + card ?B"
    using fa fb by (simp add: card_Un_disjoint)
  then show ?thesis by (simp add: whiteKeyLoop_card [of i midi] whiteKeyLoop_card [of j midi]
        whiteKeyLoop_card [of i j])
qed

lemma whiteKeyLoop_strict:
  assumes "21 \<le> p" "p < q" "\<not> list_includes blackClasses (js_rem p 12)"
  shows "whiteKeyLoop 21 p 0 < whiteKeyLoop 21 q 0"
proof -
  let ?W = "\<lambda>k. \<not> list_includes blackClasses (js_rem k 12)"
  let ?A = "{k. 21 \<le> k \<and> k < p \<and> ?W k}" and ?B = "{k. 21 \<le> k \<and> k < q \<and> ?W k}"
  have fb: "finite ?B" by (rule finite_subset [of _ "{21..<q}"]) auto
  have "p \<in> ?B" "p \<notin> ?A" using assms by auto
  moreover have "?A \<subseteq> ?B" using assms by auto
  ultimately have "?A \<subset> ?B" by blast
  then have "card ?A < card ?B" using fb by (rule psubset_card_mono [rotated])
  then show ?thesis by (simp add: whiteKeyLoop_card)
qed

lemma getNoteX_isBlack: "lane_isBlack (getNoteX p) = list_includes blackClasses (js_rem p 12)"
  by (simp add: getNoteX_def Let_def)

lemma getNoteX_x:
  "lane_x (getNoteX p) = - KEYBOARD_WIDTH / 2 + (real (whiteKeyLoop 21 p 0) + 1 / 2) * WHITE_KEY_WIDTH"
  by (simp add: getNoteX_def Let_def algebra_simps)

lemma getNoteX_width:
  "lane_width (getNoteX p)
     = (if lane_isBlack (getNoteX p) then BLACK_KEY_WIDTH else WHITE_KEY_WIDTH * 0.9)"
  by (simp add: getNoteX_def Let_def)

lemma white_index_in_range:
  "whiteKeyLoop 21 p 0 = card {k. 21 \<le> k \<and> k < p \<and> k mod 12 \<notin> {1, 3, 6, 8, 10}}"
proof -
  have "{k. 21 \<le> k \<and> k < p \<and> \<not> list_includes blackClasses (js_rem k 12)}
          = {k. 21 \<le> k \<and> k < p \<and> k mod 12 \<notin> {1, 3, 6, 8, 10}}"
    by (auto simp: js_rem_nonneg list_includes_black)
  then show ?thesis by (simp add: whiteKeyLoop_card)
qed

lemma keys_white_count: "length (filter (\<lambda>k. \<not> k_isBlack k) PianoKeys_keys) = 52"
  by code_simp

lemma keys_black_count: "length (filter k_isBlack PianoKeys_keys) = 36"
  by code_simp

lemma card_range_filter:
  "card {k::int. a \<le> k \<and> k \<le> b \<and> P k} = length (filter P [a..b])"
proof -
  have "{k. a \<le> k \<and> k \<le> b \<and> P k} = set (filter P [a..b])" by auto
  moreover have "distinct (filter P [a..b])" by simp
  ultimately show ?thesis using distinct_card [of "filter P [a..b]"] by simp
qed

lemma range_white_count: "card {k. 21 \<le> k \<and> k \<le> 108 \<and> \<not> lane_isBlack (getNoteX k)} = 52"
  unfolding card_range_filter by code_simp

lemma range_black_count: "card {k. 21 \<le> k \<and> k \<le> 108 \<and> lane_isBlack (getNoteX k)} = 36"
  unfolding card_range_filter by code_simp

text \<open>
  C5.  For every pitch \<open>p\<close> from 21 to 108: the resolver says black exactly when
  \<open>p mod 12\<close> is one of 1, 3, 6, 8, 10; with the white-key index the number of white keys
  from 21 up to but not including \<open>p\<close>, a white key lies at
  \<open>- KEYBOARD_WIDTH / 2 + index * WHITE_KEY_WIDTH + WHITE_KEY_WIDTH / 2\<close>, a black key at
  index plus half a slot, with width 0.65 times the white width; among white keys the
  position grows strictly with the pitch.  The range holds 52 white and 36 black keys.
\<close>

theorem C5_lane_resolver:
  "(21 \<le> p \<and> p \<le> 108 \<longrightarrow>
      lane_isBlack (getNoteX p) = (p mod 12 \<in> {1, 3, 6, 8, 10})
    \<and> (p mod 12 \<notin> {1, 3, 6, 8, 10} \<longrightarrow>
         lane_x (getNoteX p)
           = - KEYBOARD_WIDTH / 2
             + real (card {k. 21 \<le> k \<and> k < p \<and> k mod 12 \<notin> {1, 3, 6, 8, 10}}) * WHITE_KEY_WIDTH
             + WHITE_KEY_WIDTH / 2)
    \<and> (p mod 12 \<in> {1, 3, 6, 8, 10} \<longrightarrow>
         lane_x (getNoteX p)
           = - KEYBOARD_WIDTH / 2
             + (real (card {k. 21 \<le> k \<and> k < p \<and> k mod 12 \<notin> {1, 3, 6, 8, 10}}) + 0.5)
               * WHITE_KEY_WIDTH
         \<and> lane_width (getNoteX p) = 0.65 * WHITE_KEY_WIDTH)
    \<and> (\<forall>q. p < q \<and> q \<le> 108 \<and> \<not> lane_isBlack (getNoteX p) \<and> \<not> lane_isBlack (getNoteX q)
           \<longrightarrow> lane_x (getNoteX p) < lane_x (getNoteX q)))
   \<and> card {k. 21 \<le> k \<and> k \<le> 108 \<and> \<not> lane_isBlack (getNoteX k)} = 52
   \<and> card {k. 21 \<le> k \<and> k \<le> 108 \<and> lane_isBlack (getNoteX k)} = 36
   \<and> length (filter (\<lambda>k. \<not> k_isBlack k) PianoKeys_keys) = 52
   \<and> length (filter k_isBlack PianoKeys_keys) = 36"
proof -
  have per_pitch: "lane_isBlack (getNoteX p) = (p mod 12 \<in> {1, 3, 6, 8, 10})" if "21 \<le> p"
    using that by (simp add: getNoteX_isBlack js_rem_nonneg list_includes_black)
  have white_x: "lane_x (getNoteX p)
           = - KEYBOARD_WIDTH / 2
             + real (card {k. 21 \<le> k \<and> k < p \<and> k mod 12 \<notin> {1, 3, 6, 8, 10}}) * WHITE_KEY_WIDTH
             + WHITE_KEY_WIDTH / 2"
    by (simp add: getNoteX_x white_index_in_range algebra_simps)
  have black_x: "lane_x (getNoteX p)
           = - KEYBOARD_WIDTH / 2
             + (real (card {k. 21 \<le> k \<and> k < p \<and> k mod 12 \<notin> {1, 3, 6, 8, 10}}) + 0.5)
               * WHITE_KEY_WIDTH"
    by (simp add: getNoteX_x white_index_in_range)
  have black_w: "lane_width (getNoteX p) = 0.65 * WHITE_KEY_WIDTH"
    if "21 \<le> p" "p mod 12 \<in> {1, 3, 6, 8, 10}"
    using that per_pitch by (simp add: getNoteX_width BLACK_KEY_WIDTH_def)
  have mono: "lane_x (getNoteX p) < lane_x (getNoteX q)"
    if "21 \<le> p" "p < q" "\<not> lane_isBlack (getNoteX p)" for q
  proof -
    have "whiteKeyLoop 21 p 0 < whiteKeyLoop 21 q 0"
      using that by (intro whiteKeyLoop_strict) (simp_all add: getNoteX_isBlack)
    then show ?thesis by (simp add: getNoteX_x constants_defs)
  qed
  have "21 \<le> p \<and> p \<le> 108 \<longrightarrow>
      lane_isBlack (getNoteX p) = (p mod 12 \<in> {1, 3, 6, 8, 10})
    \<and> (p mod 12 \<notin> {1, 3, 6, 8, 10} \<longrightarrow>
         lane_x (getNoteX p)
           = - KEYBOARD_WIDTH / 2
             + real (card {k. 21 \<le> k \<and> k < p \<and> k mod 12 \<notin> {1, 3, 6, 8, 10}}) * WHITE_KEY_WIDTH
             + WHITE_KEY_WIDTH / 2)
    \<and> (p mod 12 \<in> {1, 3, 6, 8, 10} \<longrightarrow>
         lane_x (getNoteX p)
           = - KEYBOARD_WIDTH / 2
             + (real (card {k. 21 \<le> k \<and> k < p \<and> k mod 12 \<notin> {1, 3, 6, 8, 10}}) + 0.5)
               * WHITE_KEY_WIDTH
         \<and> lane_width (getNoteX p) = 0.65 * WHITE_KEY_WIDTH)
    \<and> (\<forall>q. p < q \<and> q \<le> 108 \<and> \<not> lane_isBlack (getNoteX p) \<and> \<not> lane_isBlack (getNoteX q)
           \<longrightarrow> lane_x (getNoteX p) < lane_x (getNoteX q))"
  proof (intro impI conjI allI)
    assume r: "21 \<le> p \<and> p \<le> 108"
    show "lane_isBlack (getNoteX p) = (p mod 12 \<in> {1, 3, 6, 8, 10})"
      using r by (intro per_pitch) simp
    show "lane_x (getNoteX p)
           = - KEYBOARD_WIDTH / 2
             + real (card {k. 21 \<le> k \<and> k < p \<and> k mod 12 \<notin> {1, 3, 6, 8, 10}}) * WHITE_KEY_WIDTH
             + WHITE_KEY_WIDTH / 2"
      by (rule white_x)
    show "lane_x (getNoteX p)
           = - KEYBOARD_WIDTH / 2
             + (real (card {k. 21 \<le> k \<and> k < p \<and> k mod 12 \<notin> {1, 3, 6, 8, 10}}) + 0.5)
               * WHITE_KEY_WIDTH"
      by (rule black_x)
    show "lane_width (getNoteX p) = 0.65 * WHITE_KEY_WIDTH" if "p mod 12 \<in> {1, 3, 6, 8, 10}"
      using r that by (intro black_w) simp_all
    show "lane_x (getNoteX p) < lane_x (getNoteX q)"
      if "p < q \<and> q \<le> 108 \<and> \<not> lane_isBlack (getNoteX p) \<and> \<not> lane_isBlack (getNoteX q)" for q
      using r that by (intro mono) simp_all
  qed
  then show ?thesis
    using range_white_count range_black_count keys_white_count keys_black_count
    by (simp only: simp_thms)
qed

theorem C5_witness:
  "lane_isBlack (getNoteX 61) \<and> \<not> lane_isBlack (getNoteX 60) \<and> \<not> lane_isBlack (getNoteX 62)
   \<and> lane_x (getNoteX 60) < lane_x (getNoteX 62)
   \<and> lane_width (getNoteX 61) = 0.65 * WHITE_KEY_WIDTH"
proof -
  have r: "(21::int) \<le> 60 \<and> (60::int) \<le> 108" "(21::int) \<le> 61 \<and> (61::int) \<le> 108"
    "(21::int) \<le> 62 \<and> (62::int) \<le> 108" by simp_all
  have b61: "lane_isBlack (getNoteX 61)" and w61: "lane_width (getNoteX 61) = 0.65 * WHITE_KEY_WIDTH"
    using C5_lane_resolver [of 61] r(2) by simp_all
  have w60: "\<not> lane_isBlack (getNoteX 60)"
    using C5_lane_resolver [of 60] r(1) by simp
  have w62: "\<not> lane_isBlack (getNoteX 62)"
    using C5_lane_resolver [of 62] r(3) by simp
  have "\<forall>q. 60 < q \<and> q \<le> 108 \<and> \<not> lane_isBlack (getNoteX 60) \<and> \<not> lane_isBlack (getNoteX q)
           \<longrightarrow> lane_x (getNoteX 60) < lane_x (getNoteX q)"
    using C5_lane_resolver [of 60] r(1) by blast
  then have "lane_x (getNoteX 60) < lane_x (getNoteX 62)"
    using w60 w62 by simp
  then show ?thesis using b61 w61 w60 w62 by simp
qed

section \<open>Ingestion: what enters the note list\<close>

lemma buildNote_None_iff:
  "(buildNote handFilter trackIndex i n = None)
     = ((handFilter = Left \<and> \<not> m_midi n < 60) \<or> (handFilter = Right \<and> m_midi n < 60))"
  by (auto simp: buildNote_def Let_def)

lemma buildNote_Some:
  assumes "buildNote handFilter trackIndex i n = Some note"
  shows "n_id note = NoteId trackIndex i (m_time n)" "n_midi note = m_midi n"
    "n_time note = m_time n" "n_duration note = m_duration n"
    "n_x note = lane_x (getNoteX (m_midi n))" "n_width note = lane_width (getNoteX (m_midi n))"
  using assms by (auto simp: buildNote_def Let_def split: if_splits)

lemma buildNote_Both: "\<exists>note. buildNote Both trackIndex i n = Some note"
  using buildNote_None_iff [of Both trackIndex i n] by auto

lemma set_map_filter_iff:
  "(y \<in> set (List.map_filter f xs)) = (\<exists>x \<in> set xs. f x = Some y)"
  by (induction xs) (auto split: option.splits)

lemma in_allNotes:
  "(note \<in> set (allNotes score handFilter))
     = (\<exists>k i. k < length score \<and> i < length (score ! k)
              \<and> buildNote handFilter k i (score ! k ! i) = Some note)"
  proof
  assume "note \<in> set (allNotes score handFilter)"
  then obtain k track i n where kt: "(k, track) \<in> set (enumerate 0 score)"
    and im: "(i, n) \<in> set (enumerate 0 track)" and b: "buildNote handFilter k i n = Some note"
    by (auto simp: allNotes_def set_map_filter_iff)
  from kt have "k < length score" "track = score ! k" by (auto simp: in_set_enumerate_eq)
  moreover from im have "i < length track" "n = track ! i" by (auto simp: in_set_enumerate_eq)
  ultimately show "\<exists>k i. k < length score \<and> i < length (score ! k)
              \<and> buildNote handFilter k i (score ! k ! i) = Some note"
    using b by blast
next
  assume "\<exists>k i. k < length score \<and> i < length (score ! k)
              \<and> buildNote handFilter k i (score ! k ! i) = Some note"
  then obtain k i where k: "k < length score" and i: "i < length (score ! k)"
    and b: "buildNote handFilter k i (score ! k ! i) = Some note" by blast
  have kt: "(k, score ! k) \<in> set (enumerate 0 score)" using k by (simp add: in_set_enumerate_eq)
  have im: "(i, score ! k ! i) \<in> set (enumerate 0 (score ! k))"
    using i by (simp add: in_set_enumerate_eq)
  have "note \<in> set (List.map_filter (\<lambda>(i, n). buildNote handFilter k i n)
                      (enumerate 0 (score ! k)))"
    unfolding set_map_filter_iff using im b by force
  then show "note \<in> set (allNotes score handFilter)"
    unfolding allNotes_def using kt by force
qed

lemma length_track_Both:
  "length (List.map_filter (\<lambda>(i, n). buildNote Both k i n) (enumerate j track)) = length track"
proof -
  have "filter (\<lambda>x. (case x of (i, n) \<Rightarrow> buildNote Both k i n) \<noteq> None) (enumerate j track)
          = enumerate j track"
    by (rule filter_True) (use buildNote_Both in auto)
  then show ?thesis by (simp add: List.map_filter_def)
qed

lemma length_tracks_Both:
  "length (concat (map (\<lambda>(trackIndex, track).
                    List.map_filter (\<lambda>(i, n). buildNote Both trackIndex i n) (enumerate 0 track))
                 (enumerate k score))) = length (concat score)"
  by (induction score arbitrary: k) (simp_all add: length_track_Both)

lemma length_notes_Both: "length (PianoScene_notes (Some score) Both) = length (concat score)"
  by (simp add: PianoScene_notes_def allNotes_def length_tracks_Both)

lemma in_PianoScene_notes:
  "(note \<in> set (PianoScene_notes (Some score) handFilter))
     = (\<exists>k i. k < length score \<and> i < length (score ! k)
              \<and> buildNote handFilter k i (score ! k ! i) = Some note)"
  by (simp add: PianoScene_notes_def in_allNotes)

lemma FallingNotes_note_window:
  "(FallingNotes_note t note \<noteq> None)
     = (n_time note - t \<le> VISIBLE_WINDOW \<and> - 0.5 \<le> n_time note - t + n_duration note)"
  by (auto simp: FallingNotes_note_def Let_def)

lemma FallingNotes_note_height:
  "FallingNotes_note t note = Some b \<Longrightarrow> 0.1 \<le> vy (box_args b)"
proof -
  assume "FallingNotes_note t note = Some b"
  then have "vy (box_args b) = max 0.1 (n_duration note * NOTE_SPEED - NOTE_GAP)"
    by (auto simp: FallingNotes_note_def Let_def split: if_splits)
  then show ?thesis by (simp only: max.cobounded1)
qed

text \<open>
  C7 as stated fails: the transform copies \<^verbatim>\<open>n.duration\<close> as it is.  A score whose only
  note has duration 0 gives a note list whose only note has duration 0, and the fall view
  lays that note out.
\<close>

theorem C7_counterexample:
  "PianoScene_notes (Some [[\<lparr>m_midi = 60, m_time = 0, m_duration = 0, m_velocity = 1\<rparr>]]) Both
     = [demoNote 60 0 0]
   \<and> n_duration (demoNote 60 0 0) = 0
   \<and> \<not> 0 < n_duration (demoNote 60 0 0)
   \<and> FallingNotes_note 0 (demoNote 60 0 0) \<noteq> None
   \<and> PianoScene_notes (Some [[\<lparr>m_midi = 60, m_time = 0, m_duration = - 1, m_velocity = 1\<rparr>]]) Both
     = [demoNote 60 0 (- 1)]
   \<and> n_duration (demoNote 60 0 (- 1)) = - 1"
proof -
  have "(FallingNotes_note 0 (demoNote 60 0 0) \<noteq> None)
          = (n_time (demoNote 60 0 0) - 0 \<le> VISIBLE_WINDOW
             \<and> - 0.5 \<le> n_time (demoNote 60 0 0) - 0 + n_duration (demoNote 60 0 0))"
    by (rule FallingNotes_note_window)
  then have "FallingNotes_note 0 (demoNote 60 0 0) \<noteq> None"
    by (simp add: constants_defs)
  then show ?thesis by (simp add: demoNote_built)
qed

text \<open>
  C7, amended.  The batch transform copies each source event's duration unchanged: every
  note of the list has the duration of the source event it was built from, and (with the
  filter \<open>Both\<close>) every source event is in the list.  So every note of the list has a
  duration above 0 when every source event has one; nothing is rejected or clamped at
  ingestion.  The layout code clamps what it draws: a box of the fall view is at least
  0.1 high whatever the duration.
\<close>

theorem C7_durations_copied:
  "(note \<in> set (PianoScene_notes (Some score) handFilter) \<longrightarrow>
      (\<exists>k i. k < length score \<and> i < length (score ! k)
             \<and> n_id note = NoteId k i (m_time (score ! k ! i))
             \<and> n_duration note = m_duration (score ! k ! i)))
   \<and> (k < length score \<and> i < length (score ! k) \<longrightarrow>
        (\<exists>note \<in> set (PianoScene_notes (Some score) Both).
            n_id note = NoteId k i (m_time (score ! k ! i))
            \<and> n_duration note = m_duration (score ! k ! i)))
   \<and> ((\<forall>track \<in> set score. \<forall>n \<in> set track. 0 < m_duration n) \<longrightarrow>
        (\<forall>note \<in> set (PianoScene_notes (Some score) handFilter). 0 < n_duration note))
   \<and> (FallingNotes_note t note = Some b \<longrightarrow> 0.1 \<le> vy (box_args b))"
proof (intro conjI impI)
  assume "note \<in> set (PianoScene_notes (Some score) handFilter)"
  then obtain k i where "k < length score" "i < length (score ! k)"
    "buildNote handFilter k i (score ! k ! i) = Some note"
    unfolding in_PianoScene_notes by blast
  then show "\<exists>k i. k < length score \<and> i < length (score ! k)
             \<and> n_id note = NoteId k i (m_time (score ! k ! i))
             \<and> n_duration note = m_duration (score ! k ! i)"
    using buildNote_Some(1,4) by blast
next
  assume ki: "k < length score \<and> i < length (score ! k)"
  obtain note' where b: "buildNote Both k i (score ! k ! i) = Some note'"
    using buildNote_Both by blast
  then have "note' \<in> set (PianoScene_notes (Some score) Both)"
    unfolding in_PianoScene_notes using ki by blast
  then show "\<exists>note \<in> set (PianoScene_notes (Some score) Both).
            n_id note = NoteId k i (m_time (score ! k ! i))
            \<and> n_duration note = m_duration (score ! k ! i)"
    using buildNote_Some(1,4) [OF b] by blast
next
  assume pos: "\<forall>track \<in> set score. \<forall>n \<in> set track. 0 < m_duration n"
  show "\<forall>note \<in> set (PianoScene_notes (Some score) handFilter). 0 < n_duration note"
  proof
    fix note' assume "note' \<in> set (PianoScene_notes (Some score) handFilter)"
    then obtain k i where k: "k < length score" and i: "i < length (score ! k)"
      and b: "buildNote handFilter k i (score ! k ! i) = Some note'"
      unfolding in_PianoScene_notes by blast
    have "score ! k \<in> set score" "score ! k ! i \<in> set (score ! k)" using k i by simp_all
    then have "0 < m_duration (score ! k ! i)" using pos by blast
    then show "0 < n_duration note'" using buildNote_Some(4) [OF b] by simp
  qed
next
  assume "FallingNotes_note t note = Some b"
  then show "0.1 \<le> vy (box_args b)" by (rule FallingNotes_note_height)
qed

theorem C7_witness:
  "demoNote 60 2 0.5
     \<in> set (PianoScene_notes
              (Some [[\<lparr>m_midi = 60, m_time = 2, m_duration = 0.5, m_velocity = 1\<rparr>]]) Both)
   \<and> (\<exists>k i. n_duration (demoNote 60 2 0.5)
        = m_duration ([[\<lparr>m_midi = 60, m_time = 2, m_duration = 0.5, m_velocity = 1\<rparr>]] ! k ! i))
   \<and> 0 < n_duration (demoNote 60 2 0.5)"
proof -
  let ?score = "[[\<lparr>m_midi = 60, m_time = 2, m_duration = 0.5, m_velocity = 1\<rparr>]]"
  have m: "demoNote 60 2 0.5 \<in> set (PianoScene_notes (Some ?score) Both)"
    by (simp add: demoNote_built)
  have pos: "\<forall>track \<in> set ?score. \<forall>n \<in> set track. 0 < m_duration n" by simp
  from C7_durations_copied [of "demoNote 60 2 0.5" ?score Both] m
  have "\<exists>k i. n_duration (demoNote 60 2 0.5) = m_duration (?score ! k ! i)" by blast
  moreover from C7_durations_copied [of _ ?score Both] pos m
  have "0 < n_duration (demoNote 60 2 0.5)" by blast
  ultimately show ?thesis using m by blast
qed

section \<open>Pitches outside the keyboard\<close>

lemma whiteKeyLoop_above:
  assumes "108 < midi"
  shows "whiteKeyLoop 21 midi 0
           = 52 + card {k. 109 \<le> k \<and> k < midi \<and> k mod 12 \<notin> {1, 3, 6, 8, 10}}"
proof -
  have "{k. 109 \<le> k \<and> k < midi \<and> \<not> list_includes blackClasses (js_rem k 12)}
          = {k. 109 \<le> k \<and> k < midi \<and> k mod 12 \<notin> {1, 3, 6, 8, 10}}"
    by (auto simp: js_rem_nonneg list_includes_black)
  moreover have "whiteKeyLoop 21 midi 0 = whiteKeyLoop 109 midi (whiteKeyLoop 21 109 0)"
    using assms by (intro whiteKeyLoop_split) simp_all
  ultimately show ?thesis by (simp add: whiteKeyLoop_109 whiteKeyLoop_card [of 109])
qed

section \<open>The frame callbacks of the views\<close>

lemma FallingNotes_forEach_fst:
  "fst (FallingNotes_forEach t n s)
     = (if n_time n - t \<le> VISIBLE_WINDOW \<and> - 0.5 \<le> n_time n - t + n_duration n
        then insert (n_id n) (fst s) else fst s)"
  by (cases s) (auto simp: FallingNotes_forEach_def Let_def)

lemma FallingNotes_fold_fst:
  "fst (fold (FallingNotes_forEach t) ns s)
     = fst s \<union> {n_id n | n. n \<in> set ns \<and> n_time n - t \<le> VISIBLE_WINDOW
                              \<and> - 0.5 \<le> n_time n - t + n_duration n}"
proof (induction ns arbitrary: s)
  case Nil
  show ?case by simp
next
  case (Cons a ns)
  show ?case
    unfolding fold_Cons comp_def Cons.IH FallingNotes_forEach_fst by auto
qed

lemma FallingNotes_useFrame_fst:
  "fst (FallingNotes_useFrame ns t lastSpawned)
     = {n_id n | n. n \<in> set ns \<and> n_time n - t \<le> VISIBLE_WINDOW
                     \<and> - 0.5 \<le> n_time n - t + n_duration n}"
proof -
  have "fst (FallingNotes_useFrame ns t lastSpawned)
          = fst (fold (FallingNotes_forEach t) ns ({}, [], lastSpawned))"
    by (simp add: FallingNotes_useFrame_def split: prod.splits)
  then show ?thesis by (simp add: FallingNotes_fold_fst)
qed

lemma SynthesiaFallingNotes_forEach_fst:
  "fst (SynthesiaFallingNotes_forEach t n s)
     = (if n_time n - t \<le> VISIBLE_WINDOW \<and> 0 \<le> n_time n - t + n_duration n
        then insert (n_id n) (fst s) else fst s)"
  by (cases s) (auto simp: SynthesiaFallingNotes_forEach_def Let_def)

lemma SynthesiaFallingNotes_fold_fst:
  "fst (fold (SynthesiaFallingNotes_forEach t) ns s)
     = fst s \<union> {n_id n | n. n \<in> set ns \<and> n_time n - t \<le> VISIBLE_WINDOW
                              \<and> 0 \<le> n_time n - t + n_duration n}"
proof (induction ns arbitrary: s)
  case Nil
  show ?case by simp
next
  case (Cons a ns)
  show ?case
    unfolding fold_Cons comp_def Cons.IH SynthesiaFallingNotes_forEach_fst by auto
qed

lemma SynthesiaFallingNotes_useFrame_fst:
  "fst (SynthesiaFallingNotes_useFrame ns t lastSpawned)
     = {n_id n | n. n \<in> set ns \<and> n_time n - t \<le> VISIBLE_WINDOW
                     \<and> 0 \<le> n_time n - t + n_duration n}"
proof -
  have "fst (SynthesiaFallingNotes_useFrame ns t lastSpawned)
          = fst (fold (SynthesiaFallingNotes_forEach t) ns ({}, [], lastSpawned))"
    by (simp add: SynthesiaFallingNotes_useFrame_def split: prod.splits)
  then show ?thesis by (simp add: SynthesiaFallingNotes_fold_fst)
qed

text \<open>The sparkle requests of a frame, unlike its visible set, do depend on the ref.\<close>

lemma useFrame_calls_depend_on_ref:
  "fst (snd (FallingNotes_useFrame [demoNote 60 2 0.5] 1 {})) \<noteq> []
   \<and> fst (snd (FallingNotes_useFrame [demoNote 60 2 0.5] 1 {NoteId 0 0 2})) = []"
  by (simp add: FallingNotes_useFrame_def FallingNotes_forEach_def Let_def constants_defs)

section \<open>The recede view\<close>

lemma SynthesiaFallingNotes_note_Some:
  assumes "SynthesiaFallingNotes_note t note = Some b"
  shows "n_time note - t \<le> VISIBLE_WINDOW" "0 \<le> n_time note - t + n_duration note"
  using assms by (auto simp: SynthesiaFallingNotes_note_def Let_def split: if_splits)

lemma SynthesiaFallingNotes_note_landing:
  assumes "n_time note - t < 0" "0 \<le> n_time note - t + n_duration note"
  shows "SynthesiaFallingNotes_note t note
     = (let clipped = max 0 (max 0.1 (n_duration note * NOTE_SPEED - NOTE_GAP)
                              - (t - n_time note) * NOTE_SPEED)
        in if clipped \<le> 0 then None
           else Some \<lparr>box_key = n_id note,
                      box_position = Vector3 (n_x note) 1 (KEY_Z - clipped / 2),
                      box_args = Vector3 (n_width note) 0.5 clipped,
                      box_color = n_color note\<rparr>)"
proof -
  have "\<not> n_time note - t > VISIBLE_WINDOW" using assms(1) by (simp add: constants_defs)
  moreover have "- (n_time note - t) * NOTE_SPEED = (t - n_time note) * NOTE_SPEED"
    by (simp add: algebra_simps)
  ultimately show ?thesis
    using assms by (simp add: SynthesiaFallingNotes_note_def Let_def del: max.bounded_iff)
qed

text \<open>
  C2 as stated fails in its last part.  A note whose drawn depth is 25 units has duration
  1.1 (the gap of 2.5 units is taken off \<open>1.1 * 25\<close>); half its duration after the onset
  11.25 units of it are left.  Reading the full extent as \<open>duration * speed = 25\<close>
  (duration 1), 10 units are left after half the duration.  Neither is near 12.5.
\<close>

theorem C2_counterexample:
  "max 0.1 (n_duration (demoNote 60 0 1.1) * NOTE_SPEED - NOTE_GAP) = 25
   \<and> SynthesiaFallingNotes_note (0 + 1.1 / 2) (demoNote 60 0 1.1)
       = Some \<lparr>box_key = NoteId 0 0 0,
                box_position = Vector3 (n_x (demoNote 60 0 1.1)) 1 (- 5.625),
                box_args = Vector3 (n_width (demoNote 60 0 1.1)) 0.5 11.25,
                box_color = COLORS_cyan\<rparr>
   \<and> \<not> \<bar>11.25 - 12.5\<bar> < (1::real)
   \<and> n_duration (demoNote 60 0 1) * NOTE_SPEED = 25
   \<and> SynthesiaFallingNotes_note (0 + 1 / 2) (demoNote 60 0 1)
       = Some \<lparr>box_key = NoteId 0 0 0,
                box_position = Vector3 (n_x (demoNote 60 0 1)) 1 (- 5),
                box_args = Vector3 (n_width (demoNote 60 0 1)) 0.5 10,
                box_color = COLORS_cyan\<rparr>
   \<and> \<not> \<bar>10 - 12.5\<bar> < (1::real)"
proof -
  have c: "n_color (demoNote 60 on d) = COLORS_cyan" for on d
    by (simp add: demoNote_def)
  have a: "SynthesiaFallingNotes_note (0 + 1.1 / 2) (demoNote 60 0 1.1)
       = Some \<lparr>box_key = NoteId 0 0 0,
                box_position = Vector3 (n_x (demoNote 60 0 1.1)) 1 (- 5.625),
                box_args = Vector3 (n_width (demoNote 60 0 1.1)) 0.5 11.25,
                box_color = COLORS_cyan\<rparr>"
    by (subst SynthesiaFallingNotes_note_landing) (simp_all add: constants_defs Let_def c)
  have b: "SynthesiaFallingNotes_note (0 + 1 / 2) (demoNote 60 0 1)
       = Some \<lparr>box_key = NoteId 0 0 0,
                box_position = Vector3 (n_x (demoNote 60 0 1)) 1 (- 5),
                box_args = Vector3 (n_width (demoNote 60 0 1)) 0.5 10,
                box_color = COLORS_cyan\<rparr>"
    by (subst SynthesiaFallingNotes_note_landing) (simp_all add: constants_defs Let_def c)
  show ?thesis using a b by (simp add: constants_defs)
qed

text \<open>
  C2, amended.  In the recede view, for every note inside the window with
  \<open>onset - t < 0\<close>: the depth left is \<open>max 0 (fullExtent - elapsed * speed)\<close>, where the
  full extent is the drawn depth \<open>max 0.1 (duration * speed - gap)\<close>; it is never negative;
  the note is not drawn exactly when it is 0; when the note is drawn, its depth is that
  value and its leading edge (centre plus half the depth) is at the keyboard plane
  \<open>z = 0\<close>.  A note of full extent 25 (duration 1.1) has 12.5 units left once 12.5 units of
  it (0.5 seconds) have passed, and 11.25 units left after half its duration.
\<close>

theorem C2_recede_clipping:
  "(n_time note - t < 0 \<and> 0 \<le> n_time note - t + n_duration note \<longrightarrow>
      0 \<le> max 0 (max 0.1 (n_duration note * NOTE_SPEED - NOTE_GAP)
                  - (t - n_time note) * NOTE_SPEED)
      \<and> (SynthesiaFallingNotes_note t note = None)
          = (max 0 (max 0.1 (n_duration note * NOTE_SPEED - NOTE_GAP)
                    - (t - n_time note) * NOTE_SPEED) = 0)
      \<and> (\<forall>b. SynthesiaFallingNotes_note t note = Some b \<longrightarrow>
            vz (box_args b)
              = max 0 (max 0.1 (n_duration note * NOTE_SPEED - NOTE_GAP)
                       - (t - n_time note) * NOTE_SPEED)
            \<and> 0 < vz (box_args b)
            \<and> vz (box_position b) + vz (box_args b) / 2 = KEY_Z))
   \<and> KEY_Z = 0
   \<and> max 0.1 (n_duration (note\<lparr>n_time := on, n_duration := 1.1\<rparr>) * NOTE_SPEED - NOTE_GAP) = 25
   \<and> map_option (\<lambda>b. vz (box_args b))
        (SynthesiaFallingNotes_note (on + 0.5) (note\<lparr>n_time := on, n_duration := 1.1\<rparr>))
       = Some 12.5
   \<and> map_option (\<lambda>b. vz (box_args b))
        (SynthesiaFallingNotes_note (on + 1.1 / 2) (note\<lparr>n_time := on, n_duration := 1.1\<rparr>))
       = Some 11.25"
proof (intro conjI impI allI)
  assume w: "n_time note - t < 0 \<and> 0 \<le> n_time note - t + n_duration note"
  define c where "c = max 0 (max 0.1 (n_duration note * NOTE_SPEED - NOTE_GAP)
                  - (t - n_time note) * NOTE_SPEED)"
  have nonneg: "0 \<le> c" unfolding c_def by (simp only: max.cobounded1)
  have eq: "SynthesiaFallingNotes_note t note
     = (if c \<le> 0 then None
           else Some \<lparr>box_key = n_id note,
                      box_position = Vector3 (n_x note) 1 (KEY_Z - c / 2),
                      box_args = Vector3 (n_width note) 0.5 c,
                      box_color = n_color note\<rparr>)"
    using w unfolding c_def by (simp only: SynthesiaFallingNotes_note_landing Let_def)
  show "0 \<le> max 0 (max 0.1 (n_duration note * NOTE_SPEED - NOTE_GAP)
                  - (t - n_time note) * NOTE_SPEED)"
    using nonneg unfolding c_def .
  have "(SynthesiaFallingNotes_note t note = None) = (c = 0)"
    unfolding eq using nonneg by auto
  then show "(SynthesiaFallingNotes_note t note = None)
          = (max 0 (max 0.1 (n_duration note * NOTE_SPEED - NOTE_GAP)
                    - (t - n_time note) * NOTE_SPEED) = 0)"
    unfolding c_def .
  fix b assume s: "SynthesiaFallingNotes_note t note = Some b"
  then have pos: "0 < c" unfolding eq by (auto split: if_splits)
  then have b: "b = \<lparr>box_key = n_id note,
                      box_position = Vector3 (n_x note) 1 (KEY_Z - c / 2),
                      box_args = Vector3 (n_width note) 0.5 c,
                      box_color = n_color note\<rparr>"
    using s unfolding eq by simp
  have "vz (box_args b) = c" unfolding b by simp
  then show "vz (box_args b) = max 0 (max 0.1 (n_duration note * NOTE_SPEED - NOTE_GAP)
                       - (t - n_time note) * NOTE_SPEED)"
    unfolding c_def .
  show "0 < vz (box_args b)" unfolding b using pos by simp
  show "vz (box_position b) + vz (box_args b) / 2 = KEY_Z" unfolding b by simp
next
  show "KEY_Z = 0" by (simp add: KEY_Z_def)
next
  show "max 0.1 (n_duration (note\<lparr>n_time := on, n_duration := 1.1\<rparr>) * NOTE_SPEED - NOTE_GAP) = 25"
    by (simp add: constants_defs)
next
  show "map_option (\<lambda>b. vz (box_args b))
        (SynthesiaFallingNotes_note (on + 0.5) (note\<lparr>n_time := on, n_duration := 1.1\<rparr>))
       = Some 12.5"
    by (subst SynthesiaFallingNotes_note_landing) (simp_all add: constants_defs Let_def)
next
  show "map_option (\<lambda>b. vz (box_args b))
        (SynthesiaFallingNotes_note (on + 1.1 / 2) (note\<lparr>n_time := on, n_duration := 1.1\<rparr>))
       = Some 11.25"
    by (subst SynthesiaFallingNotes_note_landing) (simp_all add: constants_defs Let_def)
qed

theorem C2_witness:
  "n_time (demoNote 60 2 1) - 2.5 < 0
   \<and> 0 \<le> n_time (demoNote 60 2 1) - 2.5 + n_duration (demoNote 60 2 1)
   \<and> SynthesiaFallingNotes_note 2.5 (demoNote 60 2 1) \<noteq> None
   \<and> (\<exists>b. SynthesiaFallingNotes_note 2.5 (demoNote 60 2 1) = Some b
          \<and> vz (box_args b) = 10 \<and> vz (box_position b) = - 5)"
proof -
  have h: "n_time (demoNote 60 2 1) - 2.5 < 0
           \<and> 0 \<le> n_time (demoNote 60 2 1) - 2.5 + n_duration (demoNote 60 2 1)" by simp
  have c: "max 0 (max 0.1 (n_duration (demoNote 60 2 1) * NOTE_SPEED - NOTE_GAP)
                  - (2.5 - n_time (demoNote 60 2 1)) * NOTE_SPEED) = 10"
    by (simp add: constants_defs)
  from C2_recede_clipping [of "demoNote 60 2 1" "2.5"] h
  have n: "(SynthesiaFallingNotes_note 2.5 (demoNote 60 2 1) = None)
          = (max 0 (max 0.1 (n_duration (demoNote 60 2 1) * NOTE_SPEED - NOTE_GAP)
                    - (2.5 - n_time (demoNote 60 2 1)) * NOTE_SPEED) = 0)"
    and s: "\<forall>b. SynthesiaFallingNotes_note 2.5 (demoNote 60 2 1) = Some b \<longrightarrow>
            vz (box_args b)
              = max 0 (max 0.1 (n_duration (demoNote 60 2 1) * NOTE_SPEED - NOTE_GAP)
                       - (2.5 - n_time (demoNote 60 2 1)) * NOTE_SPEED)
            \<and> 0 < vz (box_args b)
            \<and> vz (box_position b) + vz (box_args b) / 2 = KEY_Z"
    by blast+
  from n have nn: "SynthesiaFallingNotes_note 2.5 (demoNote 60 2 1) \<noteq> None"
    unfolding c by simp
  then obtain b where b: "SynthesiaFallingNotes_note 2.5 (demoNote 60 2 1) = Some b" by blast
  with s have "vz (box_args b) = 10" "vz (box_position b) + vz (box_args b) / 2 = KEY_Z"
    unfolding c by blast+
  then have "vz (box_args b) = 10 \<and> vz (box_position b) = - 5" by (simp add: KEY_Z_def)
  then show ?thesis using h nn b by blast
qed

section \<open>The two views compared\<close>

lemma SynthesiaFallingNotes_note_imp_window:
  "SynthesiaFallingNotes_note t note \<noteq> None \<Longrightarrow>
     n_time note - t \<le> VISIBLE_WINDOW \<and> 0 \<le> n_time note - t + n_duration note"
  using SynthesiaFallingNotes_note_Some by blast

text \<open>
  C6 as stated fails: the views test the trailing edge differently.  A note with onset 0
  and duration 1 at \<open>t = 1.2\<close> is inside the window of the fall view and is drawn there,
  and is outside the window of the recede view.
\<close>

theorem C6_counterexample:
  "FallingNotes_note 1.2 (demoNote 60 0 1) \<noteq> None
   \<and> SynthesiaFallingNotes_note 1.2 (demoNote 60 0 1) = None
   \<and> fst (FallingNotes_useFrame [demoNote 60 0 1] 1.2 {}) = {NoteId 0 0 0}
   \<and> fst (SynthesiaFallingNotes_useFrame [demoNote 60 0 1] 1.2 {}) = {}"
proof -
  have a: "FallingNotes_note 1.2 (demoNote 60 0 1) \<noteq> None"
    unfolding FallingNotes_note_window by (simp add: constants_defs)
  have b: "SynthesiaFallingNotes_note 1.2 (demoNote 60 0 1) = None"
  proof (rule ccontr)
    assume "SynthesiaFallingNotes_note 1.2 (demoNote 60 0 1) \<noteq> None"
    then have "0 \<le> n_time (demoNote 60 0 1) - 1.2 + n_duration (demoNote 60 0 1)"
      using SynthesiaFallingNotes_note_imp_window by blast
    then show False by simp
  qed
  have c: "fst (FallingNotes_useFrame [demoNote 60 0 1] 1.2 {}) = {NoteId 0 0 0}"
    unfolding FallingNotes_useFrame_fst by (auto simp: constants_defs)
  have d: "fst (SynthesiaFallingNotes_useFrame [demoNote 60 0 1] 1.2 {}) = {}"
    unfolding SynthesiaFallingNotes_useFrame_fst by (auto simp: constants_defs)
  show ?thesis using a b c d by blast
qed

lemma SynthesiaFallingNotes_note_approaching:
  assumes "0 \<le> n_time note - t" "n_time note - t \<le> VISIBLE_WINDOW"
    "0 \<le> n_time note - t + n_duration note"
  shows "SynthesiaFallingNotes_note t note \<noteq> None"
proof -
  define fullDepth where "fullDepth = max 0.1 (n_duration note * NOTE_SPEED - NOTE_GAP)"
  have "0.1 \<le> fullDepth" unfolding fullDepth_def by (simp only: max.cobounded1)
  then have pos: "\<not> fullDepth \<le> 0" by simp
  have "SynthesiaFallingNotes_note t note
          = (if fullDepth \<le> 0 then None
             else Some \<lparr>box_key = n_id note,
                        box_position = Vector3 (n_x note) 1
                          ((KEY_Z - (n_time note - t) * NOTE_SPEED) - fullDepth / 2),
                        box_args = Vector3 (n_width note) 0.5 fullDepth,
                        box_color = n_color note\<rparr>)"
    using assms unfolding fullDepth_def
    by (simp add: SynthesiaFallingNotes_note_def Let_def del: max.bounded_iff)
  then show ?thesis using pos by simp
qed

lemma SynthesiaFallingNotes_note_drawn:
  "(SynthesiaFallingNotes_note t note \<noteq> None)
     = (n_time note - t \<le> VISIBLE_WINDOW \<and> 0 \<le> n_time note - t + n_duration note
        \<and> (0 \<le> n_time note - t
            \<or> (t - n_time note) * NOTE_SPEED
                 < max 0.1 (n_duration note * NOTE_SPEED - NOTE_GAP)))"
proof (cases "n_time note - t \<le> VISIBLE_WINDOW \<and> 0 \<le> n_time note - t + n_duration note")
  case False
  then have "SynthesiaFallingNotes_note t note = None"
    using SynthesiaFallingNotes_note_imp_window by blast
  with False show ?thesis by blast
next
  case w: True
  show ?thesis
  proof (cases "0 \<le> n_time note - t")
    case True
    then have "SynthesiaFallingNotes_note t note \<noteq> None"
      using w by (intro SynthesiaFallingNotes_note_approaching) simp_all
    with w True show ?thesis by blast
  next
    case False
    then have neg: "n_time note - t < 0" by simp
    define c where "c = max 0.1 (n_duration note * NOTE_SPEED - NOTE_GAP)
                          - (t - n_time note) * NOTE_SPEED"
    have eq: "SynthesiaFallingNotes_note t note
       = (if max 0 c \<le> 0 then None
          else Some \<lparr>box_key = n_id note,
                      box_position = Vector3 (n_x note) 1 (KEY_Z - max 0 c / 2),
                      box_args = Vector3 (n_width note) 0.5 (max 0 c),
                      box_color = n_color note\<rparr>)"
      using neg w unfolding c_def by (simp only: SynthesiaFallingNotes_note_landing Let_def)
    have "(SynthesiaFallingNotes_note t note \<noteq> None) = (0 < c)"
      unfolding eq by auto
    also have "\<dots> = ((t - n_time note) * NOTE_SPEED
                        < max 0.1 (n_duration note * NOTE_SPEED - NOTE_GAP))"
      unfolding c_def by linarith
    finally show ?thesis using w False by blast
  qed
qed

text \<open>
  C6, amended.  The two views share the look-ahead bound \<open>onset - t \<le> 1.6\<close> and differ
  in the trailing bound: the fall view has a note in its window, and draws it, exactly
  while \<open>(onset - t) + duration \<ge> - 0.5\<close>, the recede view has it in its window exactly
  while \<open>(onset - t) + duration \<ge> 0\<close>, and of the notes in its window draws those that
  have not yet landed or whose clipped depth is above 0.  So every note the recede view
  draws or counts as visible is drawn and counted as visible by the fall view; the two
  window tests give the same answer unless \<open>- 0.5 \<le> (onset - t) + duration < 0\<close> (with
  \<open>onset - t \<le> 1.6\<close>); there the fall view alone has the note, and once
  \<open>(onset - t) + duration < 0\<close> the recede view never has it.
\<close>

theorem C6_windows_compared:
  "(SynthesiaFallingNotes_note t note \<noteq> None \<longrightarrow> FallingNotes_note t note \<noteq> None)
   \<and> fst (SynthesiaFallingNotes_useFrame ns t lastSpawned)
       \<subseteq> fst (FallingNotes_useFrame ns t lastSpawned')
   \<and> (n_id note \<in> fst (FallingNotes_useFrame [note] t lastSpawned'))
       = (n_id note \<in> fst (SynthesiaFallingNotes_useFrame [note] t lastSpawned)
          \<or> (n_time note - t \<le> VISIBLE_WINDOW
              \<and> - 0.5 \<le> n_time note - t + n_duration note
              \<and> n_time note - t + n_duration note < 0))
   \<and> (0 \<le> n_time note - t + n_duration note \<or> n_time note - t + n_duration note < - 0.5 \<longrightarrow>
        (n_id note \<in> fst (FallingNotes_useFrame [note] t lastSpawned'))
          = (n_id note \<in> fst (SynthesiaFallingNotes_useFrame [note] t lastSpawned)))
   \<and> VISIBLE_WINDOW = 1.6
   \<and> fst (FallingNotes_useFrame ns t lastSpawned')
       = {n_id n | n. n \<in> set ns \<and> n_time n - t \<le> VISIBLE_WINDOW
                       \<and> - 0.5 \<le> n_time n - t + n_duration n}
   \<and> fst (SynthesiaFallingNotes_useFrame ns t lastSpawned)
       = {n_id n | n. n \<in> set ns \<and> n_time n - t \<le> VISIBLE_WINDOW
                       \<and> 0 \<le> n_time n - t + n_duration n}
   \<and> (n_id note \<in> fst (FallingNotes_useFrame [note] t lastSpawned'))
       = (n_time note - t \<le> VISIBLE_WINDOW \<and> - 0.5 \<le> n_time note - t + n_duration note)
   \<and> (n_id note \<in> fst (SynthesiaFallingNotes_useFrame [note] t lastSpawned))
       = (n_time note - t \<le> VISIBLE_WINDOW \<and> 0 \<le> n_time note - t + n_duration note)
   \<and> (FallingNotes_note t note \<noteq> None)
       = (n_time note - t \<le> VISIBLE_WINDOW \<and> - 0.5 \<le> n_time note - t + n_duration note)
   \<and> (SynthesiaFallingNotes_note t note \<noteq> None)
       = (n_time note - t \<le> VISIBLE_WINDOW \<and> 0 \<le> n_time note - t + n_duration note
          \<and> (0 \<le> n_time note - t
              \<or> (t - n_time note) * NOTE_SPEED
                   < max 0.1 (n_duration note * NOTE_SPEED - NOTE_GAP)))
   \<and> (n_time note - t + n_duration note < 0 \<longrightarrow>
        SynthesiaFallingNotes_note t note = None
        \<and> n_id note \<notin> fst (SynthesiaFallingNotes_useFrame [note] t lastSpawned))
   \<and> (n_time note - t \<le> VISIBLE_WINDOW \<and> - 0.5 \<le> n_time note - t + n_duration note
       \<and> n_time note - t + n_duration note < 0 \<longrightarrow>
        FallingNotes_note t note \<noteq> None
        \<and> n_id note \<in> fst (FallingNotes_useFrame [note] t lastSpawned')
        \<and> SynthesiaFallingNotes_note t note = None
        \<and> n_id note \<notin> fst (SynthesiaFallingNotes_useFrame [note] t lastSpawned))"
proof -
  have fw: "(n_id note \<in> fst (FallingNotes_useFrame [note] t lastSpawned'))
       = (n_time note - t \<le> VISIBLE_WINDOW \<and> - 0.5 \<le> n_time note - t + n_duration note)"
    unfolding FallingNotes_useFrame_fst by auto
  have sw: "(n_id note \<in> fst (SynthesiaFallingNotes_useFrame [note] t lastSpawned))
       = (n_time note - t \<le> VISIBLE_WINDOW \<and> 0 \<le> n_time note - t + n_duration note)"
    unfolding SynthesiaFallingNotes_useFrame_fst by auto
  have fd: "(FallingNotes_note t note \<noteq> None)
       = (n_time note - t \<le> VISIBLE_WINDOW \<and> - 0.5 \<le> n_time note - t + n_duration note)"
    by (rule FallingNotes_note_window)
  have sd: "(SynthesiaFallingNotes_note t note \<noteq> None)
       = (n_time note - t \<le> VISIBLE_WINDOW \<and> 0 \<le> n_time note - t + n_duration note
          \<and> (0 \<le> n_time note - t
              \<or> (t - n_time note) * NOTE_SPEED
                   < max 0.1 (n_duration note * NOTE_SPEED - NOTE_GAP)))"
    by (rule SynthesiaFallingNotes_note_drawn)
  have sub: "fst (SynthesiaFallingNotes_useFrame ns t lastSpawned)
       \<subseteq> fst (FallingNotes_useFrame ns t lastSpawned')"
    unfolding FallingNotes_useFrame_fst SynthesiaFallingNotes_useFrame_fst by auto
  have w: "VISIBLE_WINDOW = 1.6" by (simp add: constants_defs)
  have gone: "SynthesiaFallingNotes_note t note = None"
    if "n_time note - t + n_duration note < 0"
    using that sd by force
  have c1: "SynthesiaFallingNotes_note t note \<noteq> None \<longrightarrow> FallingNotes_note t note \<noteq> None"
    unfolding fd using SynthesiaFallingNotes_note_imp_window [of t "note"] by force
  have c3: "(n_id note \<in> fst (FallingNotes_useFrame [note] t lastSpawned'))
       = (n_id note \<in> fst (SynthesiaFallingNotes_useFrame [note] t lastSpawned)
          \<or> (n_time note - t \<le> VISIBLE_WINDOW
              \<and> - 0.5 \<le> n_time note - t + n_duration note
              \<and> n_time note - t + n_duration note < 0))"
    unfolding fw sw by linarith
  have c4: "0 \<le> n_time note - t + n_duration note \<or> n_time note - t + n_duration note < - 0.5 \<longrightarrow>
        (n_id note \<in> fst (FallingNotes_useFrame [note] t lastSpawned'))
          = (n_id note \<in> fst (SynthesiaFallingNotes_useFrame [note] t lastSpawned))"
    unfolding fw sw by linarith
  have c12: "n_time note - t + n_duration note < 0 \<longrightarrow>
        SynthesiaFallingNotes_note t note = None
        \<and> n_id note \<notin> fst (SynthesiaFallingNotes_useFrame [note] t lastSpawned)"
    unfolding sw using gone by force
  have c13: "n_time note - t \<le> VISIBLE_WINDOW \<and> - 0.5 \<le> n_time note - t + n_duration note
       \<and> n_time note - t + n_duration note < 0 \<longrightarrow>
        FallingNotes_note t note \<noteq> None
        \<and> n_id note \<in> fst (FallingNotes_useFrame [note] t lastSpawned')
        \<and> SynthesiaFallingNotes_note t note = None
        \<and> n_id note \<notin> fst (SynthesiaFallingNotes_useFrame [note] t lastSpawned)"
    unfolding fw sw fd using gone by force
  show ?thesis
    using c1 sub c3 c4 w FallingNotes_useFrame_fst [of ns t "lastSpawned'"]
      SynthesiaFallingNotes_useFrame_fst [of ns t lastSpawned] fw sw fd sd c12 c13
    by (intro conjI)
qed

theorem C6_witness:
  "SynthesiaFallingNotes_note 2.5 (demoNote 60 2 1) \<noteq> None
   \<and> FallingNotes_note 2.5 (demoNote 60 2 1) \<noteq> None
   \<and> 0 \<le> n_time (demoNote 60 2 1) - 2.5 + n_duration (demoNote 60 2 1)
   \<and> (n_id (demoNote 60 2 1) \<in> fst (FallingNotes_useFrame [demoNote 60 2 1] 2.5 {}))
       = (n_id (demoNote 60 2 1) \<in> fst (SynthesiaFallingNotes_useFrame [demoNote 60 2 1] 2.5 {}))
   \<and> n_time (demoNote 60 2 1) - 3.2 + n_duration (demoNote 60 2 1) < 0
   \<and> FallingNotes_note 3.2 (demoNote 60 2 1) \<noteq> None
   \<and> n_id (demoNote 60 2 1) \<in> fst (FallingNotes_useFrame [demoNote 60 2 1] 3.2 {})
   \<and> SynthesiaFallingNotes_note 3.2 (demoNote 60 2 1) = None
   \<and> n_id (demoNote 60 2 1) \<notin> fst (SynthesiaFallingNotes_useFrame [demoNote 60 2 1] 3.2 {})"
proof -
  have s: "SynthesiaFallingNotes_note 2.5 (demoNote 60 2 1) \<noteq> None"
    by (subst SynthesiaFallingNotes_note_landing) (simp_all add: constants_defs Let_def)
  have h: "0 \<le> n_time (demoNote 60 2 1) - 2.5 + n_duration (demoNote 60 2 1)
           \<or> n_time (demoNote 60 2 1) - 2.5 + n_duration (demoNote 60 2 1) < - 0.5" by simp
  have g: "n_time (demoNote 60 2 1) - 3.2 \<le> VISIBLE_WINDOW
           \<and> - 0.5 \<le> n_time (demoNote 60 2 1) - 3.2 + n_duration (demoNote 60 2 1)
           \<and> n_time (demoNote 60 2 1) - 3.2 + n_duration (demoNote 60 2 1) < 0"
    by (simp add: constants_defs)
  have a: "FallingNotes_note 2.5 (demoNote 60 2 1) \<noteq> None"
    using C6_windows_compared [of "2.5" "demoNote 60 2 1"] s by blast
  have b: "(n_id (demoNote 60 2 1) \<in> fst (FallingNotes_useFrame [demoNote 60 2 1] 2.5 {}))
       = (n_id (demoNote 60 2 1) \<in> fst (SynthesiaFallingNotes_useFrame [demoNote 60 2 1] 2.5 {}))"
    using C6_windows_compared [of "2.5" "demoNote 60 2 1" _ "{}" "{}"] h by blast
  have c: "FallingNotes_note 3.2 (demoNote 60 2 1) \<noteq> None
        \<and> n_id (demoNote 60 2 1) \<in> fst (FallingNotes_useFrame [demoNote 60 2 1] 3.2 {})
        \<and> SynthesiaFallingNotes_note 3.2 (demoNote 60 2 1) = None
        \<and> n_id (demoNote 60 2 1) \<notin> fst (SynthesiaFallingNotes_useFrame [demoNote 60 2 1] 3.2 {})"
    using C6_windows_compared [of "3.2" "demoNote 60 2 1" _ "{}" "{}"] g by blast
  show ?thesis using s a b c g by simp
qed

section \<open>Re-derivation from the clock and the note list\<close>

lemma PianoScene_useFrame_near: "\<bar>clock - PianoScene_useFrame clock animTime\<bar> \<le> 0.001"
  by (simp add: PianoScene_useFrame_def)

lemma SynthesiaScene_useFrame_near: "\<bar>clock - SynthesiaScene_useFrame clock animTime\<bar> \<le> 0.001"
  by (simp add: SynthesiaScene_useFrame_def)

lemma PianoScene_frames_snoc:
  "PianoScene_frames (clocks @ [clock]) = PianoScene_useFrame clock (PianoScene_frames clocks)"
  by (simp add: PianoScene_frames_def)

lemma SynthesiaScene_frames_snoc:
  "SynthesiaScene_frames (clocks @ [clock])
     = SynthesiaScene_useFrame clock (SynthesiaScene_frames clocks)"
  by (simp add: SynthesiaScene_frames_def)

lemma FallingNotes_note_shift:
  assumes "FallingNotes_note t1 n = Some b1" "FallingNotes_note t2 n = Some b2"
  shows "vy (box_position b1) - vy (box_position b2) = (t2 - t1) * NOTE_SPEED"
    "vx (box_position b1) = vx (box_position b2)" "vz (box_position b1) = vz (box_position b2)"
    "box_args b1 = box_args b2"
proof -
  define h where "h = max 0.1 (n_duration n * NOTE_SPEED - NOTE_GAP)"
  have b1: "b1 = \<lparr>box_key = n_id n,
                  box_position = Vector3 (n_x n) (HIT_Y + (n_time n - t1) * NOTE_SPEED + h / 2) (- 2.5),
                  box_args = Vector3 (n_width n) h 0.5, box_color = n_color n\<rparr>"
    using assms(1) unfolding h_def
    by (auto simp: FallingNotes_note_def Let_def split: if_splits simp del: max.bounded_iff)
  have b2: "b2 = \<lparr>box_key = n_id n,
                  box_position = Vector3 (n_x n) (HIT_Y + (n_time n - t2) * NOTE_SPEED + h / 2) (- 2.5),
                  box_args = Vector3 (n_width n) h 0.5, box_color = n_color n\<rparr>"
    using assms(2) unfolding h_def
    by (auto simp: FallingNotes_note_def Let_def split: if_splits simp del: max.bounded_iff)
  show "vy (box_position b1) - vy (box_position b2) = (t2 - t1) * NOTE_SPEED"
    unfolding b1 b2 by (simp add: algebra_simps)
  show "vx (box_position b1) = vx (box_position b2)" "vz (box_position b1) = vz (box_position b2)"
    "box_args b1 = box_args b2"
    unfolding b1 b2 by simp_all
qed

text \<open>
  C8 as stated fails.  What a scene draws and lights is computed from its state
  \<^verbatim>\<open>animTime\<close>, which a frame replaces by the clock only when the two differ by more than
  0.001.  Two runs of frames that both end at the clock value 2.5, one reading 2.5 at once,
  the other reading 2.4995 first, leave the sampled times 2.5 and 2.4995: for the same
  clock value and the same note list the first run has the pitch of a note with onset 2.5
  active and a note with onset 4.1 drawn, the second has neither.
\<close>

theorem C8_counterexample:
  "last [2.5] = last [2.4995, 2.5 :: real]
   \<and> PianoScene_frames [2.5] = 2.5
   \<and> PianoScene_frames [2.4995, 2.5] = 2.4995
   \<and> fst (PianoScene_render [demoNote 60 2.5 0.5] (PianoScene_frames [2.5])) = {60}
   \<and> fst (PianoScene_render [demoNote 60 2.5 0.5] (PianoScene_frames [2.4995, 2.5])) = {}
   \<and> snd (PianoScene_render [demoNote 64 4.1 1] (PianoScene_frames [2.5])) \<noteq> [None]
   \<and> snd (PianoScene_render [demoNote 64 4.1 1] (PianoScene_frames [2.4995, 2.5])) = [None]"
proof -
  have f1: "PianoScene_frames [2.5] = 2.5"
    by (simp add: PianoScene_frames_def PianoScene_useFrame_def)
  have f2: "PianoScene_frames [2.4995, 2.5] = 2.4995"
    by (simp add: PianoScene_frames_def PianoScene_useFrame_def)
  have a1: "fst (PianoScene_render [demoNote 60 2.5 0.5] 2.5) = {60}"
    by (simp add: PianoScene_render_def PianoScene_activeNotes_def)
  have a2: "fst (PianoScene_render [demoNote 60 2.5 0.5] 2.4995) = {}"
    by (simp add: PianoScene_render_def PianoScene_activeNotes_def)
  have "FallingNotes_note 2.5 (demoNote 64 4.1 1) \<noteq> None"
    unfolding FallingNotes_note_window by (simp add: constants_defs)
  then have d1: "snd (PianoScene_render [demoNote 64 4.1 1] 2.5) \<noteq> [None]"
    by (simp add: PianoScene_render_def FallingNotes_def)
  have "\<not> FallingNotes_note 2.4995 (demoNote 64 4.1 1) \<noteq> None"
    unfolding FallingNotes_note_window by (simp add: constants_defs)
  then have d2: "snd (PianoScene_render [demoNote 64 4.1 1] 2.4995) = [None]"
    by (simp add: PianoScene_render_def FallingNotes_def)
  show ?thesis unfolding f1 f2 using a1 a2 d1 d2 by simp
qed

text \<open>
  C8, amended.  The visible set, the placement and the active set are recomputed in
  every frame from the note list and the scene's sampled time \<^verbatim>\<open>animTime\<close>; the ref
  \<^verbatim>\<open>lastSpawnedNotes\<close> of the views does not reach the visible set.  The sampled time is
  state kept between frames: a frame replaces it by the clock exactly when the two differ
  by more than 0.001 seconds.  So after a frame the sampled time is within 0.001 of the
  clock; repeating the frame at the same clock changes nothing; after any run of frames
  the sampled time is within 0.001 of the last clock value, and two runs that end at the
  same clock value leave sampled times at most 0.002 apart; when in both runs the last
  clock value is more than 0.001 from the sample before it, both render what the clock
  value itself gives.  Two fall-view boxes of one note at two times have the same size and
  differ in height by the time difference times the speed.  For one clock value and note
  list the results need not be identical.
\<close>

theorem C8_rederivation_from_sampled_time:
  "fst (FallingNotes_useFrame ns t lastSpawned) = fst (FallingNotes_useFrame ns t lastSpawned')
   \<and> fst (SynthesiaFallingNotes_useFrame ns t lastSpawned)
       = fst (SynthesiaFallingNotes_useFrame ns t lastSpawned')
   \<and> fst (FallingNotes_useFrame ns t lastSpawned)
       = {n_id n | n. n \<in> set ns \<and> FallingNotes_note t n \<noteq> None}
   \<and> fst (PianoScene_render ns animTime)
       = {n_midi n | n. n \<in> set ns \<and> n_time n \<le> animTime
                         \<and> animTime < n_time n + n_duration n}
   \<and> snd (PianoScene_render ns animTime) = map (FallingNotes_note animTime) ns
   \<and> fst (SynthesiaScene_render ns animTime)
       = {n_midi n | n. n \<in> set ns \<and> n_time n \<le> animTime
                         \<and> animTime < n_time n + n_duration n}
   \<and> snd (SynthesiaScene_render ns animTime) = map (SynthesiaFallingNotes_note animTime) ns
   \<and> (\<bar>clock - animTime\<bar> > 0.001 \<longrightarrow>
        PianoScene_useFrame clock animTime = clock
        \<and> SynthesiaScene_useFrame clock animTime = clock)
   \<and> (\<bar>clock - animTime\<bar> \<le> 0.001 \<longrightarrow>
        PianoScene_useFrame clock animTime = animTime
        \<and> SynthesiaScene_useFrame clock animTime = animTime)
   \<and> \<bar>clock - PianoScene_useFrame clock animTime\<bar> \<le> 0.001
   \<and> \<bar>clock - SynthesiaScene_useFrame clock animTime\<bar> \<le> 0.001
   \<and> PianoScene_useFrame clock (PianoScene_useFrame clock animTime)
       = PianoScene_useFrame clock animTime
   \<and> SynthesiaScene_useFrame clock (SynthesiaScene_useFrame clock animTime)
       = SynthesiaScene_useFrame clock animTime
   \<and> \<bar>clock - PianoScene_frames (clocks @ [clock])\<bar> \<le> 0.001
   \<and> \<bar>clock - SynthesiaScene_frames (clocks @ [clock])\<bar> \<le> 0.001
   \<and> \<bar>PianoScene_frames (clocks @ [clock]) - PianoScene_frames (clocks' @ [clock])\<bar> \<le> 0.002
   \<and> \<bar>SynthesiaScene_frames (clocks @ [clock]) - SynthesiaScene_frames (clocks' @ [clock])\<bar>
       \<le> 0.002
   \<and> (\<bar>clock - PianoScene_frames clocks\<bar> > 0.001
       \<and> \<bar>clock - PianoScene_frames clocks'\<bar> > 0.001 \<longrightarrow>
        PianoScene_render ns (PianoScene_frames (clocks @ [clock])) = PianoScene_render ns clock
        \<and> PianoScene_render ns (PianoScene_frames (clocks' @ [clock]))
            = PianoScene_render ns clock)
   \<and> (\<bar>clock - SynthesiaScene_frames clocks\<bar> > 0.001
       \<and> \<bar>clock - SynthesiaScene_frames clocks'\<bar> > 0.001 \<longrightarrow>
        SynthesiaScene_render ns (SynthesiaScene_frames (clocks @ [clock]))
          = SynthesiaScene_render ns clock
        \<and> SynthesiaScene_render ns (SynthesiaScene_frames (clocks' @ [clock]))
            = SynthesiaScene_render ns clock)
   \<and> (FallingNotes_note t1 n = Some b1 \<and> FallingNotes_note t2 n = Some b2 \<longrightarrow>
        vy (box_position b1) - vy (box_position b2) = (t2 - t1) * NOTE_SPEED
        \<and> vx (box_position b1) = vx (box_position b2)
        \<and> vz (box_position b1) = vz (box_position b2)
        \<and> box_args b1 = box_args b2)"
proof (intro conjI impI)
  show "fst (FallingNotes_useFrame ns t lastSpawned)
       = {n_id n | n. n \<in> set ns \<and> FallingNotes_note t n \<noteq> None}"
    unfolding FallingNotes_useFrame_fst FallingNotes_note_window ..
  show "fst (PianoScene_render ns animTime)
       = {n_midi n | n. n \<in> set ns \<and> n_time n \<le> animTime
                         \<and> animTime < n_time n + n_duration n}"
    unfolding PianoScene_render_def PianoScene_activeNotes_def activeNotes_fold by simp
  show "snd (PianoScene_render ns animTime) = map (FallingNotes_note animTime) ns"
    by (simp add: PianoScene_render_def FallingNotes_def)
  show "fst (SynthesiaScene_render ns animTime)
       = {n_midi n | n. n \<in> set ns \<and> n_time n \<le> animTime
                         \<and> animTime < n_time n + n_duration n}"
    unfolding SynthesiaScene_render_def SynthesiaScene_activeNotes_def activeNotes_fold by simp
  show "snd (SynthesiaScene_render ns animTime) = map (SynthesiaFallingNotes_note animTime) ns"
    by (simp add: SynthesiaScene_render_def SynthesiaFallingNotes_def)
  show "fst (FallingNotes_useFrame ns t lastSpawned) = fst (FallingNotes_useFrame ns t lastSpawned')"
    by (simp only: FallingNotes_useFrame_fst)
  show "fst (SynthesiaFallingNotes_useFrame ns t lastSpawned)
       = fst (SynthesiaFallingNotes_useFrame ns t lastSpawned')"
    by (simp only: SynthesiaFallingNotes_useFrame_fst)
  show "\<bar>clock - PianoScene_useFrame clock animTime\<bar> \<le> 0.001"
    by (rule PianoScene_useFrame_near)
  show "\<bar>clock - SynthesiaScene_useFrame clock animTime\<bar> \<le> 0.001"
    by (rule SynthesiaScene_useFrame_near)
  show "PianoScene_useFrame clock (PianoScene_useFrame clock animTime)
       = PianoScene_useFrame clock animTime"
    by (simp add: PianoScene_useFrame_def)
  show "SynthesiaScene_useFrame clock (SynthesiaScene_useFrame clock animTime)
       = SynthesiaScene_useFrame clock animTime"
    by (simp add: SynthesiaScene_useFrame_def)
  show p: "\<bar>clock - PianoScene_frames (clocks @ [clock])\<bar> \<le> 0.001" for clocks
    unfolding PianoScene_frames_snoc by (rule PianoScene_useFrame_near)
  show s: "\<bar>clock - SynthesiaScene_frames (clocks @ [clock])\<bar> \<le> 0.001" for clocks
    unfolding SynthesiaScene_frames_snoc by (rule SynthesiaScene_useFrame_near)
  show "\<bar>PianoScene_frames (clocks @ [clock]) - PianoScene_frames (clocks' @ [clock])\<bar> \<le> 0.002"
    using p [of clocks] p [of clocks'] by linarith
  show "\<bar>SynthesiaScene_frames (clocks @ [clock]) - SynthesiaScene_frames (clocks' @ [clock])\<bar>
       \<le> 0.002"
    using s [of clocks] s [of clocks'] by linarith
next
  assume "\<bar>clock - animTime\<bar> > 0.001"
  then show "PianoScene_useFrame clock animTime = clock"
    "SynthesiaScene_useFrame clock animTime = clock"
    by (simp_all add: PianoScene_useFrame_def SynthesiaScene_useFrame_def)
next
  assume "\<bar>clock - animTime\<bar> \<le> 0.001"
  then show "PianoScene_useFrame clock animTime = animTime"
    "SynthesiaScene_useFrame clock animTime = animTime"
    by (simp_all add: PianoScene_useFrame_def SynthesiaScene_useFrame_def)
next
  assume "\<bar>clock - PianoScene_frames clocks\<bar> > 0.001
       \<and> \<bar>clock - PianoScene_frames clocks'\<bar> > 0.001"
  then have "PianoScene_frames (clocks @ [clock]) = clock"
    "PianoScene_frames (clocks' @ [clock]) = clock"
    unfolding PianoScene_frames_snoc by (simp_all add: PianoScene_useFrame_def)
  then show "PianoScene_render ns (PianoScene_frames (clocks @ [clock])) = PianoScene_render ns clock"
    "PianoScene_render ns (PianoScene_frames (clocks' @ [clock])) = PianoScene_render ns clock"
    by simp_all
next
  assume "\<bar>clock - SynthesiaScene_frames clocks\<bar> > 0.001
       \<and> \<bar>clock - SynthesiaScene_frames clocks'\<bar> > 0.001"
  then have "SynthesiaScene_frames (clocks @ [clock]) = clock"
    "SynthesiaScene_frames (clocks' @ [clock]) = clock"
    unfolding SynthesiaScene_frames_snoc by (simp_all add: SynthesiaScene_useFrame_def)
  then show "SynthesiaScene_render ns (SynthesiaScene_frames (clocks @ [clock]))
          = SynthesiaScene_render ns clock"
    "SynthesiaScene_render ns (SynthesiaScene_frames (clocks' @ [clock]))
            = SynthesiaScene_render ns clock"
    by simp_all
next
  assume a: "FallingNotes_note t1 n = Some b1 \<and> FallingNotes_note t2 n = Some b2"
  then show "vy (box_position b1) - vy (box_position b2) = (t2 - t1) * NOTE_SPEED"
    "vx (box_position b1) = vx (box_position b2)" "vz (box_position b1) = vz (box_position b2)"
    "box_args b1 = box_args b2"
    using FallingNotes_note_shift [of t1 n b1 t2 b2] by blast+
qed

theorem C8_witness:
  "fst (FallingNotes_useFrame [demoNote 60 2 0.5] 1 {})
     = fst (FallingNotes_useFrame [demoNote 60 2 0.5] 1 {NoteId 0 0 2})
   \<and> fst (snd (FallingNotes_useFrame [demoNote 60 2 0.5] 1 {}))
       \<noteq> fst (snd (FallingNotes_useFrame [demoNote 60 2 0.5] 1 {NoteId 0 0 2}))
   \<and> \<bar>3 - PianoScene_frames [1]\<bar> > 0.001 \<and> \<bar>3 - PianoScene_frames [1, 2]\<bar> > 0.001
   \<and> PianoScene_render [demoNote 60 2 0.5] (PianoScene_frames ([1] @ [3]))
       = PianoScene_render [demoNote 60 2 0.5] (PianoScene_frames ([1, 2] @ [3]))
   \<and> \<bar>2.5 - PianoScene_frames ([2.4995] @ [2.5])\<bar> \<le> 0.001
   \<and> PianoScene_frames ([2.4995] @ [2.5]) \<noteq> 2.5"
proof -
  have f1: "PianoScene_frames [1] = 1" "PianoScene_frames [1, 2] = 2"
    "PianoScene_frames ([2.4995] @ [2.5]) = 2.4995"
    by (simp_all add: PianoScene_frames_def PianoScene_useFrame_def)
  have h: "\<bar>3 - PianoScene_frames [1]\<bar> > 0.001 \<and> \<bar>3 - PianoScene_frames [1, 2]\<bar> > 0.001"
    unfolding f1 by simp
  note T = C8_rederivation_from_sampled_time
    [where ns = "[demoNote 60 2 0.5]" and t = 1 and lastSpawned = "{}"
       and lastSpawned' = "{NoteId 0 0 2}" and animTime = 0 and clock = 3
       and clocks = "[1]" and clocks' = "[1, 2]" and ?t1.0 = 0 and ?t2.0 = 0
       and n = "demoNote 60 2 0.5" and ?b1.0 = undefined and ?b2.0 = undefined]
  note U = C8_rederivation_from_sampled_time
    [where ns = "[demoNote 60 2 0.5]" and t = 1 and lastSpawned = "{}"
       and lastSpawned' = "{NoteId 0 0 2}" and animTime = 0 and clock = "2.5"
       and clocks = "[2.4995]" and clocks' = "[]" and ?t1.0 = 0 and ?t2.0 = 0
       and n = "demoNote 60 2 0.5" and ?b1.0 = undefined and ?b2.0 = undefined]
  from T have a: "fst (FallingNotes_useFrame [demoNote 60 2 0.5] 1 {})
     = fst (FallingNotes_useFrame [demoNote 60 2 0.5] 1 {NoteId 0 0 2})"
    by - (elim conjE, assumption)
  from T have "\<bar>3 - PianoScene_frames [1]\<bar> > 0.001 \<and> \<bar>3 - PianoScene_frames [1, 2]\<bar> > 0.001 \<longrightarrow>
        PianoScene_render [demoNote 60 2 0.5] (PianoScene_frames ([1] @ [3]))
          = PianoScene_render [demoNote 60 2 0.5] 3
        \<and> PianoScene_render [demoNote 60 2 0.5] (PianoScene_frames ([1, 2] @ [3]))
            = PianoScene_render [demoNote 60 2 0.5] 3"
    by - (elim conjE, assumption)
  with h have b: "PianoScene_render [demoNote 60 2 0.5] (PianoScene_frames ([1] @ [3]))
       = PianoScene_render [demoNote 60 2 0.5] (PianoScene_frames ([1, 2] @ [3]))"
    by simp
  from U have c: "\<bar>2.5 - PianoScene_frames ([2.4995] @ [2.5])\<bar> \<le> 0.001"
    by - (elim conjE, assumption)
  have d: "PianoScene_frames ([2.4995] @ [2.5]) \<noteq> 2.5"
    unfolding f1 by simp
  have e: "fst (snd (FallingNotes_useFrame [demoNote 60 2 0.5] 1 {}))
       \<noteq> fst (snd (FallingNotes_useFrame [demoNote 60 2 0.5] 1 {NoteId 0 0 2}))"
    using useFrame_calls_depend_on_ref by simp
  from h have h1: "\<bar>3 - PianoScene_frames [1]\<bar> > 0.001"
    and h2: "\<bar>3 - PianoScene_frames [1, 2]\<bar> > 0.001" by blast+
  show ?thesis by (intro conjI a e h1 h2 b c d)
qed

section \<open>Effect pools: capacity\<close>

lemma PianoScene_spawnParticles_append:
  "\<exists>new. PianoScene_spawnParticles rnd x color ps = ps @ new \<and> length new \<le> 500 - length ps"
  by (auto simp: PianoScene_spawnParticles_def Let_def)

lemma SynthesiaScene_spawnParticles_append:
  "\<exists>new. SynthesiaScene_spawnParticles rnd x color ps = ps @ new \<and> length new \<le> 500 - length ps"
  by (auto simp: SynthesiaScene_spawnParticles_def Let_def)

lemma PianoScene_spawnSparkles_append:
  "\<exists>new. PianoScene_spawnSparkles rnd x y color ss = ss @ new \<and> length new \<le> 500 - length ss"
  by (auto simp: PianoScene_spawnSparkles_def Let_def)

lemma SynthesiaScene_spawnSparkles_append:
  "\<exists>new. SynthesiaScene_spawnSparkles rnd x z color ss = ss @ new \<and> length new \<le> 500 - length ss"
  by (auto simp: SynthesiaScene_spawnSparkles_def Let_def)

lemma append_within:
  "length (ps :: 'a list) \<le> 500 \<Longrightarrow> length new \<le> 500 - length ps \<Longrightarrow> length (ps @ new) \<le> 500"
  by simp

lemma spawn_full:
  "500 \<le> length ps \<Longrightarrow> PianoScene_spawnParticles rnd x color ps = ps"
  "500 \<le> length ps \<Longrightarrow> SynthesiaScene_spawnParticles rnd x color ps = ps"
  "500 \<le> length ss \<Longrightarrow> PianoScene_spawnSparkles rnd x y color ss = ss"
  "500 \<le> length ss \<Longrightarrow> SynthesiaScene_spawnSparkles rnd x y color ss = ss"
  by (simp_all add: PianoScene_spawnParticles_def SynthesiaScene_spawnParticles_def
      PianoScene_spawnSparkles_def SynthesiaScene_spawnSparkles_def)

lemma ParticleSystem_loop_length:
  "length (fst (ParticleSystem_loop delta ps)) \<le> length ps"
  by (induction ps) (auto simp: Let_def split: prod.splits)

lemma SparkleSystem_loop_length:
  "length (fst (SparkleSystem_loop delta ss)) \<le> length ss"
  by (induction ss) (auto simp: Let_def split: prod.splits)

lemma ParticleSystem_useFrame_length:
  "length (fst (ParticleSystem_useFrame mounted delta ps)) \<le> length ps"
  using ParticleSystem_loop_length [of delta ps]
  by (auto simp: ParticleSystem_useFrame_def split: prod.splits)

lemma SparkleSystem_useFrame_length:
  "length (fst (SparkleSystem_useFrame mounted delta ss)) \<le> length ss"
  using SparkleSystem_loop_length [of delta ss]
  by (auto simp: SparkleSystem_useFrame_def split: prod.splits)

lemma particle_pool_bounded: "particle_pool ps \<Longrightarrow> length ps \<le> 500"
proof (induction rule: particle_pool.induct)
  case pp_empty
  show ?case by simp
next
  case (pp_spawn_piano ps rnd x color)
  obtain new where "PianoScene_spawnParticles rnd x color ps = ps @ new"
    "length new \<le> 500 - length ps"
    using PianoScene_spawnParticles_append by blast
  then show ?case using pp_spawn_piano.IH by simp
next
  case (pp_spawn_synthesia ps rnd x color)
  obtain new where "SynthesiaScene_spawnParticles rnd x color ps = ps @ new"
    "length new \<le> 500 - length ps"
    using SynthesiaScene_spawnParticles_append by blast
  then show ?case using pp_spawn_synthesia.IH by simp
next
  case (pp_frame ps mounted delta)
  then show ?case
    using ParticleSystem_useFrame_length [of mounted delta ps] by simp
qed

lemma sparkle_pool_bounded: "sparkle_pool ss \<Longrightarrow> length ss \<le> 500"
proof (induction rule: sparkle_pool.induct)
  case sp_empty
  show ?case by simp
next
  case (sp_spawn_piano ss rnd x y color)
  obtain new where "PianoScene_spawnSparkles rnd x y color ss = ss @ new"
    "length new \<le> 500 - length ss"
    using PianoScene_spawnSparkles_append by blast
  then show ?case using sp_spawn_piano.IH by simp
next
  case (sp_spawn_synthesia ss rnd x z color)
  obtain new where "SynthesiaScene_spawnSparkles rnd x z color ss = ss @ new"
    "length new \<le> 500 - length ss"
    using SynthesiaScene_spawnSparkles_append by blast
  then show ?case using sp_spawn_synthesia.IH by simp
next
  case (sp_frame ss mounted delta)
  then show ?case
    using SparkleSystem_useFrame_length [of mounted delta ss] by simp
qed

lemma particle_pool_fold_piano:
  "particle_pool ps \<Longrightarrow>
     particle_pool (fold (\<lambda>(rnd, x, color). PianoScene_spawnParticles rnd x color) calls ps)"
  by (induction calls arbitrary: ps) (auto intro: particle_pool.intros)

lemma particle_pool_fold_synthesia:
  "particle_pool ps \<Longrightarrow>
     particle_pool (fold (\<lambda>(rnd, x, color). SynthesiaScene_spawnParticles rnd x color) calls ps)"
  by (induction calls arbitrary: ps) (auto intro: particle_pool.intros)

lemma sparkle_pool_fold_piano:
  "sparkle_pool ss \<Longrightarrow>
     sparkle_pool (fold (\<lambda>(rnd, x, y, color). PianoScene_spawnSparkles rnd x y color) calls ss)"
  by (induction calls arbitrary: ss) (auto intro: sparkle_pool.intros)

lemma sparkle_pool_fold_synthesia:
  "sparkle_pool ss \<Longrightarrow>
     sparkle_pool (fold (\<lambda>(rnd, x, z, color). SynthesiaScene_spawnSparkles rnd x z color) calls ss)"
  by (induction calls arbitrary: ss) (auto intro: sparkle_pool.intros)

text \<open>
  C4.  A pool that a scene can reach (from the empty pool, by any sequence of spawn calls
  and frames) never holds more than 500 members, for the particle and the sparkle pools
  alike; in particular after any sequence of spawn calls on the empty pool.  A spawn call
  only appends, and appends at most \<open>500 - currentCount\<close> members (the difference of
  natural numbers: nothing when the count is 500 or more); on a pool at capacity it
  returns the pool as it is.  The spawn functions have no failing branch.
\<close>

theorem C4_pool_capacity:
  "(particle_pool ps \<longrightarrow> length ps \<le> 500)
   \<and> (sparkle_pool ss \<longrightarrow> length ss \<le> 500)
   \<and> length (fold (\<lambda>(rnd, x, color). PianoScene_spawnParticles rnd x color) pcalls []) \<le> 500
   \<and> length (fold (\<lambda>(rnd, x, color). SynthesiaScene_spawnParticles rnd x color) pcalls []) \<le> 500
   \<and> length (fold (\<lambda>(rnd, x, y, color). PianoScene_spawnSparkles rnd x y color) scalls []) \<le> 500
   \<and> length (fold (\<lambda>(rnd, x, z, color). SynthesiaScene_spawnSparkles rnd x z color) scalls [])
        \<le> 500
   \<and> (\<exists>new. PianoScene_spawnParticles rnd x color ps = ps @ new
          \<and> length new \<le> 500 - length ps)
   \<and> (\<exists>new. SynthesiaScene_spawnParticles rnd x color ps = ps @ new
          \<and> length new \<le> 500 - length ps)
   \<and> (\<exists>new. PianoScene_spawnSparkles rnd x y color ss = ss @ new
          \<and> length new \<le> 500 - length ss)
   \<and> (\<exists>new. SynthesiaScene_spawnSparkles rnd x y color ss = ss @ new
          \<and> length new \<le> 500 - length ss)
   \<and> (500 \<le> length ps \<longrightarrow>
        PianoScene_spawnParticles rnd x color ps = ps
        \<and> SynthesiaScene_spawnParticles rnd x color ps = ps)
   \<and> (500 \<le> length ss \<longrightarrow>
        PianoScene_spawnSparkles rnd x y color ss = ss
        \<and> SynthesiaScene_spawnSparkles rnd x y color ss = ss)"
proof (intro conjI impI)
  show "length (fold (\<lambda>(rnd, x, color). PianoScene_spawnParticles rnd x color) pcalls []) \<le> 500"
    by (intro particle_pool_bounded particle_pool_fold_piano pp_empty)
  show "length (fold (\<lambda>(rnd, x, color). SynthesiaScene_spawnParticles rnd x color) pcalls [])
          \<le> 500"
    by (intro particle_pool_bounded particle_pool_fold_synthesia pp_empty)
  show "length (fold (\<lambda>(rnd, x, y, color). PianoScene_spawnSparkles rnd x y color) scalls [])
          \<le> 500"
    by (intro sparkle_pool_bounded sparkle_pool_fold_piano sp_empty)
  show "length (fold (\<lambda>(rnd, x, z, color). SynthesiaScene_spawnSparkles rnd x z color) scalls [])
          \<le> 500"
    by (intro sparkle_pool_bounded sparkle_pool_fold_synthesia sp_empty)
qed (simp_all only: particle_pool_bounded sparkle_pool_bounded spawn_full
      PianoScene_spawnParticles_append SynthesiaScene_spawnParticles_append
      PianoScene_spawnSparkles_append SynthesiaScene_spawnSparkles_append)

lemma replicate_spawn_length:
  "length ((PianoScene_spawnParticles rnd x color ^^ k) []) = min (10 * k) 500"
proof (induction k)
  case 0
  show ?case by simp
next
  case (Suc k)
  then show ?case
    by (auto simp: PianoScene_spawnParticles_def Let_def min_def)
qed

theorem C4_witness:
  "particle_pool ((PianoScene_spawnParticles (\<lambda>_. 0) 0 COLORS_cyan ^^ 60) [])
   \<and> length ((PianoScene_spawnParticles (\<lambda>_. 0) 0 COLORS_cyan ^^ 60) []) = 500
   \<and> PianoScene_spawnParticles (\<lambda>_. 0) 0 COLORS_cyan
        ((PianoScene_spawnParticles (\<lambda>_. 0) 0 COLORS_cyan ^^ 60) [])
      = (PianoScene_spawnParticles (\<lambda>_. 0) 0 COLORS_cyan ^^ 60) []
   \<and> sparkle_pool (SynthesiaScene_spawnSparkles (\<lambda>_. 0) 0 0 COLORS_cyan [])
   \<and> length (SynthesiaScene_spawnSparkles (\<lambda>_. 0) 0 0 COLORS_cyan []) = 2"
proof -
  let ?spawn = "PianoScene_spawnParticles (\<lambda>_. 0) 0 COLORS_cyan"
  have pool: "particle_pool ((?spawn ^^ k) [])" for k
    by (induction k) (auto intro: particle_pool.intros)
  have len: "length ((?spawn ^^ 60) []) = 500"
    by (simp add: replicate_spawn_length)
  have full: "?spawn ((?spawn ^^ 60) []) = (?spawn ^^ 60) []"
    using C4_pool_capacity [of "(?spawn ^^ 60) []" _ _ _ "\<lambda>_. 0" 0 COLORS_cyan] len by simp
  have sp: "sparkle_pool (SynthesiaScene_spawnSparkles (\<lambda>_. 0) 0 0 COLORS_cyan [])"
    by (intro sparkle_pool.intros)
  have "length (SynthesiaScene_spawnSparkles (\<lambda>_. 0) 0 0 COLORS_cyan []) \<le> 500"
    using C4_pool_capacity [of _ "SynthesiaScene_spawnSparkles (\<lambda>_. 0) 0 0 COLORS_cyan []"] sp
    by blast
  moreover have "length (SynthesiaScene_spawnSparkles (\<lambda>_. 0) 0 0 COLORS_cyan []) = 2"
    by (simp add: SynthesiaScene_spawnSparkles_def)
  ultimately show ?thesis using pool [of 60] len full sp by simp
qed

section \<open>Effect pools: a frame\<close>

lemma ParticleSystem_loop_Cons:
  "ParticleSystem_loop dt (p # ps)
     = (case ParticleSystem_loop dt ps of
          (kept, instances) \<Rightarrow>
            if p_life p - dt * 1.2 \<le> 0 then (kept, instances)
            else if ParticleSystem_COUNT \<le> length instances then (kept, instances)
            else (spec_advance_particle 1.2 20 dt p # kept,
                  instances @ [spec_particle_instance (spec_advance_particle 1.2 20 dt p)]))"
  by (simp add: Let_def spec_advance_particle_def spec_particle_instance_def v_add_def
      multiplyScalar_def split: prod.splits)

lemma ParticleSystem_loop_eq:
  "length ps \<le> ParticleSystem_COUNT \<Longrightarrow>
     ParticleSystem_loop dt ps
       = (map (spec_advance_particle 1.2 20 dt) (filter (\<lambda>p. \<not> p_life p - dt * 1.2 \<le> 0) ps),
          rev (map spec_particle_instance
                 (map (spec_advance_particle 1.2 20 dt)
                    (filter (\<lambda>p. \<not> p_life p - dt * 1.2 \<le> 0) ps))))"
proof (induction ps)
  case Nil
  show ?case by simp
next
  case (Cons p ps)
  have len: "length ps < ParticleSystem_COUNT" using Cons.prems by simp
  then have IH: "ParticleSystem_loop dt ps
       = (map (spec_advance_particle 1.2 20 dt) (filter (\<lambda>p. \<not> p_life p - dt * 1.2 \<le> 0) ps),
          rev (map spec_particle_instance
                 (map (spec_advance_particle 1.2 20 dt)
                    (filter (\<lambda>p. \<not> p_life p - dt * 1.2 \<le> 0) ps))))"
    using Cons.IH by simp
  have "length (filter (\<lambda>p. \<not> p_life p - dt * 1.2 \<le> 0) ps) \<le> length ps"
    by (rule length_filter_le)
  then have room: "\<not> ParticleSystem_COUNT \<le> length (filter (\<lambda>p. \<not> p_life p - dt * 1.2 \<le> 0) ps)"
    using len by linarith
  show ?case
    unfolding ParticleSystem_loop_Cons IH using room by simp
qed

lemma SparkleSystem_loop_Cons:
  "SparkleSystem_loop dt (s # ss)
     = (case SparkleSystem_loop dt ss of
          (kept, instances) \<Rightarrow>
            if p_life s - dt * 1.5 \<le> 0 then (kept, instances)
            else if SparkleSystem_COUNT \<le> length instances then (kept, instances)
            else (spec_advance_sparkle dt s # kept,
                  instances @ [spec_sparkle_instance (spec_advance_sparkle dt s)]))"
  by (simp add: Let_def spec_advance_sparkle_def spec_advance_particle_def
      spec_sparkle_instance_def v_add_def multiplyScalar_def split: prod.splits)

lemma SparkleSystem_loop_eq:
  "length ss \<le> SparkleSystem_COUNT \<Longrightarrow>
     SparkleSystem_loop dt ss
       = (map (spec_advance_sparkle dt) (filter (\<lambda>s. \<not> p_life s - dt * 1.5 \<le> 0) ss),
          rev (map spec_sparkle_instance
                 (map (spec_advance_sparkle dt)
                    (filter (\<lambda>s. \<not> p_life s - dt * 1.5 \<le> 0) ss))))"
proof (induction ss)
  case Nil
  show ?case by simp
next
  case (Cons s ss)
  have len: "length ss < SparkleSystem_COUNT" using Cons.prems by simp
  then have IH: "SparkleSystem_loop dt ss
       = (map (spec_advance_sparkle dt) (filter (\<lambda>s. \<not> p_life s - dt * 1.5 \<le> 0) ss),
          rev (map spec_sparkle_instance
                 (map (spec_advance_sparkle dt)
                    (filter (\<lambda>s. \<not> p_life s - dt * 1.5 \<le> 0) ss))))"
    using Cons.IH by simp
  have "length (filter (\<lambda>s. \<not> p_life s - dt * 1.5 \<le> 0) ss) \<le> length ss"
    by (rule length_filter_le)
  then have room: "\<not> SparkleSystem_COUNT \<le> length (filter (\<lambda>s. \<not> p_life s - dt * 1.5 \<le> 0) ss)"
    using len by linarith
  show ?case
    unfolding SparkleSystem_loop_Cons IH using room by simp
qed

lemma spec_advance_particle_fields:
  "p_life (spec_advance_particle fadeRate gravity dt p) = p_life p - dt * fadeRate"
  "p_velocity (spec_advance_particle fadeRate gravity dt p)
     = Vector3 (vx (p_velocity p)) (vy (p_velocity p) - gravity * dt) (vz (p_velocity p))"
  "p_position (spec_advance_particle fadeRate gravity dt p)
     = Vector3 (vx (p_position p) + vx (p_velocity p) * dt)
         (vy (p_position p) + (vy (p_velocity p) - gravity * dt) * dt)
         (vz (p_position p) + vz (p_velocity p) * dt)"
  "p_maxLife (spec_advance_particle fadeRate gravity dt p) = p_maxLife p"
  "p_size (spec_advance_particle fadeRate gravity dt p) = p_size p"
  "p_color (spec_advance_particle fadeRate gravity dt p) = p_color p"
  by (simp_all add: spec_advance_particle_def)

lemma spec_advance_sparkle_fields:
  "p_life (spec_advance_sparkle dt s) = p_life s - dt * 1.5"
  "p_velocity (spec_advance_sparkle dt s)
     = Vector3 (vx (p_velocity s)) (vy (p_velocity s) - 5 * dt) (vz (p_velocity s))"
  "p_position (spec_advance_sparkle dt s)
     = Vector3 (vx (p_position s) + vx (p_velocity s) * dt)
         (vy (p_position s) + (vy (p_velocity s) - 5 * dt) * dt)
         (vz (p_position s) + vz (p_velocity s) * dt)"
  "s_rotation (spec_advance_sparkle dt s) = s_rotation s + s_rotationSpeed s * dt"
  "s_rotationSpeed (spec_advance_sparkle dt s) = s_rotationSpeed s"
  "p_maxLife (spec_advance_sparkle dt s) = p_maxLife s"
  "p_size (spec_advance_sparkle dt s) = p_size s"
  "p_color (spec_advance_sparkle dt s) = p_color s"
  by (simp_all add: spec_advance_sparkle_def spec_advance_particle_def)

text \<open>
  C9.  For a pool the scene can reach and a frame of step \<open>dt\<close> (with the instanced mesh
  mounted): the pool after the frame holds, in their order, the members whose life less
  \<open>dt * fadeRate\<close> is above 0, each advanced; a member is removed exactly when that
  decremented life is \<open>\<le> 0\<close>.  Advancing takes \<open>dt * fadeRate\<close> off the life (fade rate
  1.2 for particles, 1.5 for sparkles), takes \<open>gravity * dt\<close> off the vertical velocity
  (gravity 20 for particles, 5 for sparkles) and leaves the other two components, moves
  each coordinate of the position by the matching component of the new velocity times
  \<open>dt\<close>, and for a sparkle adds \<open>rotationSpeed * dt\<close> to the rotation.  Every surviving
  member is drawn at its new position with scale \<open>size * (life / maxLife)\<close>, a sparkle
  with its new rotation.
\<close>

theorem C9_advance:
  "(particle_pool ps \<longrightarrow>
      fst (ParticleSystem_useFrame True dt ps)
        = map (spec_advance_particle 1.2 20 dt) (filter (\<lambda>p. \<not> p_life p - dt * 1.2 \<le> 0) ps)
      \<and> snd (ParticleSystem_useFrame True dt ps)
        = Some (rev (map spec_particle_instance (fst (ParticleSystem_useFrame True dt ps)))))
   \<and> (sparkle_pool ss \<longrightarrow>
      fst (SparkleSystem_useFrame True dt ss)
        = map (spec_advance_sparkle dt) (filter (\<lambda>s. \<not> p_life s - dt * 1.5 \<le> 0) ss)
      \<and> snd (SparkleSystem_useFrame True dt ss)
        = Some (rev (map spec_sparkle_instance (fst (SparkleSystem_useFrame True dt ss)))))
   \<and> p_life (spec_advance_particle 1.2 20 dt p) = p_life p - dt * 1.2
   \<and> p_velocity (spec_advance_particle 1.2 20 dt p)
       = Vector3 (vx (p_velocity p)) (vy (p_velocity p) - 20 * dt) (vz (p_velocity p))
   \<and> p_position (spec_advance_particle 1.2 20 dt p)
       = v_add (p_position p) (multiplyScalar (p_velocity (spec_advance_particle 1.2 20 dt p)) dt)
   \<and> p_position (spec_advance_particle 1.2 20 dt p)
       = Vector3 (vx (p_position p) + vx (p_velocity p) * dt)
           (vy (p_position p) + (vy (p_velocity p) - 20 * dt) * dt)
           (vz (p_position p) + vz (p_velocity p) * dt)
   \<and> p_size (spec_advance_particle 1.2 20 dt p) = p_size p
   \<and> p_maxLife (spec_advance_particle 1.2 20 dt p) = p_maxLife p
   \<and> pi_scale (spec_particle_instance p) = p_size p * (p_life p / p_maxLife p)
   \<and> pi_position (spec_particle_instance p) = p_position p
   \<and> p_life (spec_advance_sparkle dt s) = p_life s - dt * 1.5
   \<and> p_velocity (spec_advance_sparkle dt s)
       = Vector3 (vx (p_velocity s)) (vy (p_velocity s) - 5 * dt) (vz (p_velocity s))
   \<and> p_position (spec_advance_sparkle dt s)
       = v_add (p_position s) (multiplyScalar (p_velocity (spec_advance_sparkle dt s)) dt)
   \<and> p_position (spec_advance_sparkle dt s)
       = Vector3 (vx (p_position s) + vx (p_velocity s) * dt)
           (vy (p_position s) + (vy (p_velocity s) - 5 * dt) * dt)
           (vz (p_position s) + vz (p_velocity s) * dt)
   \<and> s_rotation (spec_advance_sparkle dt s) = s_rotation s + s_rotationSpeed s * dt
   \<and> p_size (spec_advance_sparkle dt s) = p_size s
   \<and> p_maxLife (spec_advance_sparkle dt s) = p_maxLife s
   \<and> si_scale (spec_sparkle_instance s) = p_size s * (p_life s / p_maxLife s)
   \<and> si_rotation (spec_sparkle_instance s) = s_rotation s
   \<and> si_position (spec_sparkle_instance s) = p_position s"
proof (intro conjI impI)
  assume "particle_pool ps"
  then have "length ps \<le> ParticleSystem_COUNT"
    using particle_pool_bounded [of ps] by (simp add: ParticleSystem_COUNT_def)
  then have l: "ParticleSystem_loop dt ps
       = (map (spec_advance_particle 1.2 20 dt) (filter (\<lambda>p. \<not> p_life p - dt * 1.2 \<le> 0) ps),
          rev (map spec_particle_instance
                 (map (spec_advance_particle 1.2 20 dt)
                    (filter (\<lambda>p. \<not> p_life p - dt * 1.2 \<le> 0) ps))))"
    by (rule ParticleSystem_loop_eq)
  show "fst (ParticleSystem_useFrame True dt ps)
        = map (spec_advance_particle 1.2 20 dt) (filter (\<lambda>p. \<not> p_life p - dt * 1.2 \<le> 0) ps)"
    unfolding ParticleSystem_useFrame_def l by simp
  show "snd (ParticleSystem_useFrame True dt ps)
        = Some (rev (map spec_particle_instance (fst (ParticleSystem_useFrame True dt ps))))"
    unfolding ParticleSystem_useFrame_def l by simp
next
  assume "sparkle_pool ss"
  then have "length ss \<le> SparkleSystem_COUNT"
    using sparkle_pool_bounded [of ss] by (simp add: SparkleSystem_COUNT_def)
  then have l: "SparkleSystem_loop dt ss
       = (map (spec_advance_sparkle dt) (filter (\<lambda>s. \<not> p_life s - dt * 1.5 \<le> 0) ss),
          rev (map spec_sparkle_instance
                 (map (spec_advance_sparkle dt)
                    (filter (\<lambda>s. \<not> p_life s - dt * 1.5 \<le> 0) ss))))"
    by (rule SparkleSystem_loop_eq)
  show "fst (SparkleSystem_useFrame True dt ss)
        = map (spec_advance_sparkle dt) (filter (\<lambda>s. \<not> p_life s - dt * 1.5 \<le> 0) ss)"
    unfolding SparkleSystem_useFrame_def l by simp
  show "snd (SparkleSystem_useFrame True dt ss)
        = Some (rev (map spec_sparkle_instance (fst (SparkleSystem_useFrame True dt ss))))"
    unfolding SparkleSystem_useFrame_def l by simp
qed (simp_all add: spec_advance_particle_fields spec_advance_sparkle_fields
      spec_particle_instance_def spec_sparkle_instance_def v_add_def multiplyScalar_def)

theorem C9_witness:
  "sparkle_pool (SynthesiaScene_spawnSparkles (\<lambda>_. 0) 0 0 COLORS_cyan [])
   \<and> map p_position (SynthesiaScene_spawnSparkles (\<lambda>_. 0) 0 0 COLORS_cyan [])
       = [Vector3 (- 1) 2 (- 1), Vector3 (- 1) 2 (- 1)]
   \<and> map p_velocity (SynthesiaScene_spawnSparkles (\<lambda>_. 0) 0 0 COLORS_cyan [])
       = [Vector3 (- 0.5) 0 25, Vector3 (- 0.5) 0 25]
   \<and> map p_life (fst (SparkleSystem_useFrame True 0.5
                        (SynthesiaScene_spawnSparkles (\<lambda>_. 0) 0 0 COLORS_cyan [])))
       = [0.25, 0.25]
   \<and> map p_velocity (fst (SparkleSystem_useFrame True 0.5
                        (SynthesiaScene_spawnSparkles (\<lambda>_. 0) 0 0 COLORS_cyan [])))
       = [Vector3 (- 0.5) (- 2.5) 25, Vector3 (- 0.5) (- 2.5) 25]
   \<and> map p_position (fst (SparkleSystem_useFrame True 0.5
                        (SynthesiaScene_spawnSparkles (\<lambda>_. 0) 0 0 COLORS_cyan [])))
       = [Vector3 (- 1.25) 0.75 11.5, Vector3 (- 1.25) 0.75 11.5]
   \<and> map s_rotation (fst (SparkleSystem_useFrame True 0.5
                        (SynthesiaScene_spawnSparkles (\<lambda>_. 0) 0 0 COLORS_cyan [])))
       = [- 1.25, - 1.25]
   \<and> snd (SparkleSystem_useFrame True 0.5
             (SynthesiaScene_spawnSparkles (\<lambda>_. 0) 0 0 COLORS_cyan []))
       = Some [\<lparr>si_position = Vector3 (- 1.25) 0.75 11.5, si_rotation = - 1.25,
                 si_scale = 0.025, si_color = Color COLORS_cyan 1\<rparr>,
               \<lparr>si_position = Vector3 (- 1.25) 0.75 11.5, si_rotation = - 1.25,
                 si_scale = 0.025, si_color = Color COLORS_cyan 1\<rparr>]
   \<and> fst (SparkleSystem_useFrame True 1
             (SynthesiaScene_spawnSparkles (\<lambda>_. 0) 0 0 COLORS_cyan [])) = []
   \<and> particle_pool (PianoScene_spawnParticles (\<lambda>_. 0) 0 COLORS_cyan [])
   \<and> map p_position (PianoScene_spawnParticles (\<lambda>_. 0) 0 COLORS_cyan [])
       = replicate 10 (Vector3 0.3 3 (- 1))
   \<and> map p_velocity (PianoScene_spawnParticles (\<lambda>_. 0) 0 COLORS_cyan [])
       = replicate 10 (Vector3 (- 6.4) 0 (- 2.5))
   \<and> map p_position (fst (ParticleSystem_useFrame True 0.5
                            (PianoScene_spawnParticles (\<lambda>_. 0) 0 COLORS_cyan [])))
       = replicate 10 (Vector3 (- 2.9) (- 2) (- 2.25))
   \<and> map p_life (fst (ParticleSystem_useFrame True 0.5
                        (PianoScene_spawnParticles (\<lambda>_. 0) 0 COLORS_cyan [])))
       = replicate 10 0.4"
proof -
  let ?Q = "PianoScene_spawnParticles (\<lambda>_. 0) 0 COLORS_cyan []"
  let ?m = "PianoScene_newParticle (\<lambda>_. 0) 0 COLORS_cyan"
  have pq: "particle_pool ?Q" by (intro particle_pool.intros)
  have Q: "?Q = map ?m [0..<10]"
    by (simp add: PianoScene_spawnParticles_def del: upt_rec_numeral)
  have g: "p_life (?m i) = 1" "p_position (?m i) = Vector3 0.3 3 (- 1)"
    "p_velocity (?m i) = Vector3 (- 6.4) 0 (- 2.5)" for i
    by (simp_all add: PianoScene_newParticle_def HIT_Y_def)
  have qa: "fst (ParticleSystem_useFrame True 0.5 ?Q)
        = map (spec_advance_particle 1.2 20 0.5) (filter (\<lambda>p. \<not> p_life p - 0.5 * 1.2 \<le> 0) ?Q)"
    using C9_advance [of ?Q "0.5"] pq by blast
  have all: "map (spec_advance_particle 1.2 20 0.5)
               (filter (\<lambda>p. \<not> p_life p - 0.5 * 1.2 \<le> 0) (map ?m xs))
             = map (\<lambda>i. spec_advance_particle 1.2 20 0.5 (?m i)) xs" for xs :: "nat list"
    by (induction xs) (simp_all add: g)
  have q1: "map p_position ?Q = replicate 10 (Vector3 0.3 3 (- 1))"
    unfolding Q by (simp add: g comp_def map_replicate_const del: upt_rec_numeral)
  have q2: "map p_velocity ?Q = replicate 10 (Vector3 (- 6.4) 0 (- 2.5))"
    unfolding Q by (simp add: g comp_def map_replicate_const del: upt_rec_numeral)
  have q3: "map p_position (fst (ParticleSystem_useFrame True 0.5 ?Q))
              = replicate 10 (Vector3 (- 2.9) (- 2) (- 2.25))"
    unfolding qa unfolding Q all
    by (simp add: g comp_def spec_advance_particle_fields map_replicate_const del: upt_rec_numeral)
  have q4: "map p_life (fst (ParticleSystem_useFrame True 0.5 ?Q)) = replicate 10 0.4"
    unfolding qa unfolding Q all
    by (simp add: g comp_def spec_advance_particle_fields map_replicate_const del: upt_rec_numeral)
  let ?P = "SynthesiaScene_spawnSparkles (\<lambda>_. 0) 0 0 COLORS_cyan []"
  let ?n = "SynthesiaScene_newSparkle (\<lambda>_. 0) 0 0 COLORS_cyan"
  have sp: "sparkle_pool ?P" by (intro sparkle_pool.intros)
  have P: "?P = [?n 0, ?n 1]"
    by (simp add: SynthesiaScene_spawnSparkles_def upt_rec)
  have f: "p_life (?n i) = 1" "s_rotation (?n i) = 0" "s_rotationSpeed (?n i) = - 2.5"
    "p_position (?n i) = Vector3 (- 1) 2 (- 1)" "p_velocity (?n i) = Vector3 (- 0.5) 0 25"
    "p_size (?n i) = 0.1" "p_maxLife (?n i) = 1" "p_color (?n i) = Color COLORS_cyan 1"
    for i by (simp_all add: SynthesiaScene_newSparkle_def NOTE_SPEED_def)
  have a: "fst (SparkleSystem_useFrame True 0.5 ?P)
        = map (spec_advance_sparkle 0.5) (filter (\<lambda>s. \<not> p_life s - 0.5 * 1.5 \<le> 0) ?P)"
    and i: "snd (SparkleSystem_useFrame True 0.5 ?P)
        = Some (rev (map spec_sparkle_instance (fst (SparkleSystem_useFrame True 0.5 ?P))))"
    using C9_advance [of _ "0.5" ?P] sp by blast+
  have b: "fst (SparkleSystem_useFrame True 1 ?P)
        = map (spec_advance_sparkle 1) (filter (\<lambda>s. \<not> p_life s - 1 * 1.5 \<le> 0) ?P)"
    using C9_advance [of _ 1 ?P] sp by blast
  have a': "fst (SparkleSystem_useFrame True 0.5 ?P)
              = [spec_advance_sparkle 0.5 (?n 0), spec_advance_sparkle 0.5 (?n 1)]"
    unfolding a unfolding P by (simp add: f)
  have "map p_position ?P = [Vector3 (- 1) 2 (- 1), Vector3 (- 1) 2 (- 1)]"
    unfolding P by (simp add: f)
  moreover have "map p_velocity ?P = [Vector3 (- 0.5) 0 25, Vector3 (- 0.5) 0 25]"
    unfolding P by (simp add: f)
  moreover have "map p_life (fst (SparkleSystem_useFrame True 0.5 ?P)) = [0.25, 0.25]"
    unfolding a' by (simp add: f spec_advance_sparkle_fields)
  moreover have "map p_velocity (fst (SparkleSystem_useFrame True 0.5 ?P))
                   = [Vector3 (- 0.5) (- 2.5) 25, Vector3 (- 0.5) (- 2.5) 25]"
    unfolding a' by (simp add: f spec_advance_sparkle_fields)
  moreover have "map p_position (fst (SparkleSystem_useFrame True 0.5 ?P))
                   = [Vector3 (- 1.25) 0.75 11.5, Vector3 (- 1.25) 0.75 11.5]"
    unfolding a' by (simp add: f spec_advance_sparkle_fields)
  moreover have "map s_rotation (fst (SparkleSystem_useFrame True 0.5 ?P)) = [- 1.25, - 1.25]"
    unfolding a' by (simp add: f spec_advance_sparkle_fields)
  moreover have "snd (SparkleSystem_useFrame True 0.5 ?P)
       = Some [\<lparr>si_position = Vector3 (- 1.25) 0.75 11.5, si_rotation = - 1.25,
                 si_scale = 0.025, si_color = Color COLORS_cyan 1\<rparr>,
               \<lparr>si_position = Vector3 (- 1.25) 0.75 11.5, si_rotation = - 1.25,
                 si_scale = 0.025, si_color = Color COLORS_cyan 1\<rparr>]"
    unfolding i unfolding a'
    by (simp add: f spec_advance_sparkle_fields spec_sparkle_instance_def)
  moreover have "fst (SparkleSystem_useFrame True 1 ?P) = []"
    unfolding b unfolding P by (simp add: f)
  ultimately show ?thesis using sp pq q1 q2 q3 q4 by blast
qed

section \<open>Pitches outside the keyboard in the scenes\<close>

lemma length_notes_Both_synthesia:
  "length (SynthesiaScene_notes (Some score) Both) = length (concat score)"
  by (simp add: SynthesiaScene_notes_def allNotes_def length_tracks_Both)

lemma in_SynthesiaScene_notes:
  "(note \<in> set (SynthesiaScene_notes (Some score) handFilter))
     = (\<exists>k i. k < length score \<and> i < length (score ! k)
              \<and> buildNote handFilter k i (score ! k ! i) = Some note)"
  by (simp add: SynthesiaScene_notes_def in_allNotes)

lemma find_in_table:
  assumes "\<And>i. k_midi (mk i) = i"
  shows "List.find (\<lambda>k. k_midi k = m) (map mk xs) = (if m \<in> set xs then Some (mk m) else None)"
  using assms by (induction xs) auto

lemma PianoKeys_find_eq:
  "PianoKeys_find midi
     = (if 21 \<le> midi \<and> midi \<le> 108
        then Some \<lparr>k_midi = midi, k_x = lane_x (getNoteX midi),
                   k_width = lane_width (getNoteX midi),
                   k_isBlack = lane_isBlack (getNoteX midi)\<rparr>
        else None)"
proof -
  let ?mk = "\<lambda>i. let l = getNoteX i
                  in \<lparr>k_midi = i, k_x = lane_x l, k_width = lane_width l,
                      k_isBlack = lane_isBlack l\<rparr>"
  have "k_midi (?mk i) = i" for i by (simp add: Let_def)
  then have "List.find (\<lambda>k. k_midi k = midi) (map ?mk [21..108])
               = (if midi \<in> set [21..108] then Some (?mk midi) else None)"
    by (rule find_in_table)
  then show ?thesis
    unfolding PianoKeys_find_def PianoKeys_keys_def by (simp add: Let_def del: upto_rec_numeral)
qed

lemma PianoKeys_forEach_eq:
  "PianoKeys_forEach midi
     = (if 21 \<le> midi \<and> midi \<le> 108
        then Some (lane_x (getNoteX midi), if midi < 60 then COLORS_magenta else COLORS_cyan)
        else None)"
  by (simp add: PianoKeys_forEach_def PianoKeys_find_eq Let_def)

lemma keys_midi: "map k_midi PianoKeys_keys = [21..108]"
  unfolding PianoKeys_keys_def
  by (simp add: comp_def Let_def del: upto_rec_numeral)

lemma PianoKeys_render_outside:
  assumes "midi < 21 \<or> 108 < midi"
  shows "PianoKeys_render (insert midi activeNotes) = PianoKeys_render activeNotes"
proof -
  have "k_midi key \<noteq> midi" if "key \<in> set PianoKeys_keys" for key
  proof -
    from that have "k_midi key \<in> set (map k_midi PianoKeys_keys)" by simp
    then have "21 \<le> k_midi key \<and> k_midi key \<le> 108"
      unfolding keys_midi set_upto by (simp only: atLeastAtMost_iff)
    then show ?thesis using assms by auto
  qed
  then show ?thesis
    unfolding PianoKeys_render_def by (intro map_cong) (simp_all add: Let_def)
qed

lemma PianoKeys_render_midi: "map kv_midi (PianoKeys_render activeNotes) = [21..108]"
proof -
  have "map kv_midi (PianoKeys_render activeNotes) = map k_midi PianoKeys_keys"
    unfolding PianoKeys_render_def by (simp add: comp_def Let_def)
  then show ?thesis by (simp only: keys_midi)
qed

text \<open>
  C10 as stated fails in one place: \<^verbatim>\<open>PianoKeys\<close> does drop a pitch outside 21..108.  A
  note of pitch 120 sounding at \<open>t = 2.25\<close> is in the active set, but the key lookup
  finds no key for it, so the frame callback makes no particle call for it (it makes one
  for pitch 60) and the keys drawn are those drawn for an empty active set.
\<close>

theorem C10_counterexample:
  "PianoScene_activeNotes 2.25 [demoNote 120 2 0.5] = {120}
   \<and> PianoKeys_find 120 = None
   \<and> PianoKeys_forEach 120 = None
   \<and> PianoKeys_useFrame [120] = []
   \<and> PianoKeys_useFrame [60] = [(lane_x (getNoteX 60), COLORS_cyan)]
   \<and> PianoKeys_render {120} = PianoKeys_render {}"
proof -
  have a: "PianoScene_activeNotes 2.25 [demoNote 120 2 0.5] = {120}"
    by (simp add: PianoScene_activeNotes_def)
  have b: "PianoKeys_find 120 = None" by (simp add: PianoKeys_find_eq)
  have c: "PianoKeys_forEach 120 = None" by (simp add: PianoKeys_forEach_eq)
  have d: "PianoKeys_forEach 60 = Some (lane_x (getNoteX 60), COLORS_cyan)"
    by (simp add: PianoKeys_forEach_eq)
  have e: "PianoKeys_render (insert 120 {}) = PianoKeys_render {}"
    by (rule PianoKeys_render_outside) simp
  show ?thesis using a b c d e by (simp add: PianoKeys_useFrame_def)
qed

text \<open>
  C10, amended.  \<^const>\<open>getNoteX\<close> answers for every integer pitch (its loop terminates for
  every argument, which the definition of \<^const>\<open>whiteKeyLoop\<close> had to prove).  Below 21
  the white-key count is 0 and the lane is the leftmost slot, that of pitch 21; above 108
  the count goes on from the 52 white keys of the keyboard, which puts the lane to the
  right of the keyboard.  The note list of either scene has no range check: the hand
  filter is the only reason a source note is left out, with the filter \<open>Both\<close> every
  source note becomes a note of the list, laid out by \<^const>\<open>getNoteX\<close>; both views draw
  a note according to its times alone, and the active set takes its pitch whatever it
  is.  So an event outside the range is laid out and drawn, not rejected.  The one place
  that drops a pitch outside 21..108 is \<^verbatim>\<open>PianoKeys\<close>, whose key table holds the pitches
  21 to 108: for a sounding pitch outside it no particle call is made and no key is lit.
\<close>

theorem C10_out_of_range_pitches:
  "(midi < 21 \<longrightarrow>
      whiteKeyLoop 21 midi 0 = 0
      \<and> lane_x (getNoteX midi) = - KEYBOARD_WIDTH / 2 + 0 * WHITE_KEY_WIDTH + WHITE_KEY_WIDTH / 2
      \<and> lane_x (getNoteX midi) = lane_x (getNoteX 21))
   \<and> (108 < midi \<longrightarrow>
      whiteKeyLoop 21 midi 0
        = 52 + card {k. 109 \<le> k \<and> k < midi \<and> k mod 12 \<notin> {1, 3, 6, 8, 10}}
      \<and> lane_x (getNoteX midi)
        = - KEYBOARD_WIDTH / 2 + (real (whiteKeyLoop 21 midi 0) + 1 / 2) * WHITE_KEY_WIDTH
      \<and> KEYBOARD_WIDTH / 2 < lane_x (getNoteX midi))
   \<and> (buildNote handFilter trackIndex i n = None)
       = ((handFilter = Left \<and> \<not> m_midi n < 60) \<or> (handFilter = Right \<and> m_midi n < 60))
   \<and> (\<exists>note. buildNote Both trackIndex i n = Some note
         \<and> n_midi note = m_midi n \<and> n_x note = lane_x (getNoteX (m_midi n))
         \<and> n_time note = m_time n \<and> n_duration note = m_duration n)
   \<and> length (PianoScene_notes (Some score) Both) = length (concat score)
   \<and> (buildNote handFilter trackIndex i n = Some note \<longrightarrow>
        (FallingNotes_note t note \<noteq> None)
          = (m_time n - t \<le> VISIBLE_WINDOW \<and> - 0.5 \<le> m_time n - t + m_duration n))
   \<and> length (SynthesiaScene_notes (Some score) Both) = length (concat score)
   \<and> (note' \<in> set (PianoScene_notes (Some score) handFilter))
       = (\<exists>k j. k < length score \<and> j < length (score ! k)
                \<and> buildNote handFilter k j (score ! k ! j) = Some note')
   \<and> (note' \<in> set (SynthesiaScene_notes (Some score) handFilter))
       = (\<exists>k j. k < length score \<and> j < length (score ! k)
                \<and> buildNote handFilter k j (score ! k ! j) = Some note')
   \<and> (buildNote handFilter trackIndex i n = Some note \<longrightarrow>
        (SynthesiaFallingNotes_note t note \<noteq> None)
          = (m_time n - t \<le> VISIBLE_WINDOW \<and> 0 \<le> m_time n - t + m_duration n
             \<and> (0 \<le> m_time n - t
                 \<or> (t - m_time n) * NOTE_SPEED
                      < max 0.1 (m_duration n * NOTE_SPEED - NOTE_GAP))))
   \<and> (buildNote handFilter trackIndex i n = Some note \<longrightarrow>
        (m_midi n \<in> PianoScene_activeNotes t [note])
          = (m_time n \<le> t \<and> t < m_time n + m_duration n)
        \<and> (m_midi n \<in> SynthesiaScene_activeNotes t [note])
          = (m_time n \<le> t \<and> t < m_time n + m_duration n))
   \<and> PianoKeys_forEach midi
       = (if 21 \<le> midi \<and> midi \<le> 108
          then Some (lane_x (getNoteX midi), if midi < 60 then COLORS_magenta else COLORS_cyan)
          else None)
   \<and> map kv_midi (PianoKeys_render activeNotes) = [21..108]
   \<and> (midi < 21 \<or> 108 < midi \<longrightarrow>
        PianoKeys_find midi = None
        \<and> PianoKeys_forEach midi = None
        \<and> PianoKeys_useFrame (midi # active) = PianoKeys_useFrame active
        \<and> PianoKeys_render (insert midi activeNotes) = PianoKeys_render activeNotes)"
proof (intro conjI impI)
  assume lo: "midi < 21"
  then show c0: "whiteKeyLoop 21 midi 0 = 0" by (simp add: whiteKeyLoop_below)
  then show "lane_x (getNoteX midi)
               = - KEYBOARD_WIDTH / 2 + 0 * WHITE_KEY_WIDTH + WHITE_KEY_WIDTH / 2"
    by (simp add: getNoteX_x)
  show "lane_x (getNoteX midi) = lane_x (getNoteX 21)"
    using c0 by (simp add: getNoteX_x whiteKeyLoop_below)
next
  assume hi: "108 < midi"
  then show c: "whiteKeyLoop 21 midi 0
        = 52 + card {k. 109 \<le> k \<and> k < midi \<and> k mod 12 \<notin> {1, 3, 6, 8, 10}}"
    by (rule whiteKeyLoop_above)
  show "lane_x (getNoteX midi)
        = - KEYBOARD_WIDTH / 2 + (real (whiteKeyLoop 21 midi 0) + 1 / 2) * WHITE_KEY_WIDTH"
    by (rule getNoteX_x)
  have "52 \<le> real (whiteKeyLoop 21 midi 0)" using c by simp
  then show "KEYBOARD_WIDTH / 2 < lane_x (getNoteX midi)"
    by (simp add: getNoteX_x constants_defs)
next
  show "(buildNote handFilter trackIndex i n = None)
       = ((handFilter = Left \<and> \<not> m_midi n < 60) \<or> (handFilter = Right \<and> m_midi n < 60))"
    by (rule buildNote_None_iff)
next
  obtain note' where b: "buildNote Both trackIndex i n = Some note'"
    using buildNote_Both by blast
  show "\<exists>note. buildNote Both trackIndex i n = Some note
         \<and> n_midi note = m_midi n \<and> n_x note = lane_x (getNoteX (m_midi n))
         \<and> n_time note = m_time n \<and> n_duration note = m_duration n"
    using b buildNote_Some [OF b] by blast
next
  show "length (PianoScene_notes (Some score) Both) = length (concat score)"
    by (rule length_notes_Both)
next
  assume b: "buildNote handFilter trackIndex i n = Some note"
  show "(FallingNotes_note t note \<noteq> None)
          = (m_time n - t \<le> VISIBLE_WINDOW \<and> - 0.5 \<le> m_time n - t + m_duration n)"
    unfolding FallingNotes_note_window buildNote_Some(3,4) [OF b] ..
next
  show "length (SynthesiaScene_notes (Some score) Both) = length (concat score)"
    by (rule length_notes_Both_synthesia)
next
  show "(note' \<in> set (PianoScene_notes (Some score) handFilter))
       = (\<exists>k j. k < length score \<and> j < length (score ! k)
                \<and> buildNote handFilter k j (score ! k ! j) = Some note')"
    by (rule in_PianoScene_notes)
next
  show "(note' \<in> set (SynthesiaScene_notes (Some score) handFilter))
       = (\<exists>k j. k < length score \<and> j < length (score ! k)
                \<and> buildNote handFilter k j (score ! k ! j) = Some note')"
    by (rule in_SynthesiaScene_notes)
next
  assume b: "buildNote handFilter trackIndex i n = Some note"
  show "(SynthesiaFallingNotes_note t note \<noteq> None)
          = (m_time n - t \<le> VISIBLE_WINDOW \<and> 0 \<le> m_time n - t + m_duration n
             \<and> (0 \<le> m_time n - t
                 \<or> (t - m_time n) * NOTE_SPEED
                      < max 0.1 (m_duration n * NOTE_SPEED - NOTE_GAP)))"
    unfolding SynthesiaFallingNotes_note_drawn buildNote_Some(3,4) [OF b] ..
next
  assume b: "buildNote handFilter trackIndex i n = Some note"
  show "(m_midi n \<in> PianoScene_activeNotes t [note])
          = (m_time n \<le> t \<and> t < m_time n + m_duration n)"
    unfolding PianoScene_activeNotes_def activeNotes_fold
    using buildNote_Some(2,3,4) [OF b] by auto
  show "(m_midi n \<in> SynthesiaScene_activeNotes t [note])
          = (m_time n \<le> t \<and> t < m_time n + m_duration n)"
    unfolding SynthesiaScene_activeNotes_def activeNotes_fold
    using buildNote_Some(2,3,4) [OF b] by auto
next
  show "PianoKeys_forEach midi
       = (if 21 \<le> midi \<and> midi \<le> 108
          then Some (lane_x (getNoteX midi), if midi < 60 then COLORS_magenta else COLORS_cyan)
          else None)"
    by (rule PianoKeys_forEach_eq)
next
  show "map kv_midi (PianoKeys_render activeNotes) = [21..108]"
    by (rule PianoKeys_render_midi)
next
  assume out: "midi < 21 \<or> 108 < midi"
  then show "PianoKeys_find midi = None" by (auto simp: PianoKeys_find_eq)
  from out show f: "PianoKeys_forEach midi = None" by (auto simp: PianoKeys_forEach_eq)
  show "PianoKeys_useFrame (midi # active) = PianoKeys_useFrame active"
    by (simp add: PianoKeys_useFrame_def f)
  from out show "PianoKeys_render (insert midi activeNotes) = PianoKeys_render activeNotes"
    by (rule PianoKeys_render_outside)
qed

theorem C10_witness:
  "whiteKeyLoop 21 10 0 = 0
   \<and> lane_x (getNoteX 10) = lane_x (getNoteX 21)
   \<and> KEYBOARD_WIDTH / 2 < lane_x (getNoteX 120)
   \<and> PianoScene_notes (Some [[\<lparr>m_midi = 120, m_time = 2, m_duration = 0.5, m_velocity = 1\<rparr>]]) Both
       = [demoNote 120 2 0.5]
   \<and> FallingNotes_note 1 (demoNote 120 2 0.5) \<noteq> None
   \<and> SynthesiaFallingNotes_note 1 (demoNote 120 2 0.5) \<noteq> None
   \<and> 120 \<in> PianoScene_activeNotes 2.25 [demoNote 120 2 0.5]
   \<and> PianoKeys_forEach 120 = None
   \<and> PianoKeys_useFrame [120, 60] = PianoKeys_useFrame [60]
   \<and> PianoKeys_render {120, 60} = PianoKeys_render {60}"
proof -
  let ?n = "\<lparr>m_midi = 120, m_time = 2, m_duration = 0.5, m_velocity = 1\<rparr>"
  have lo: "(10::int) < 21" and hi: "(108::int) < 120" by simp_all
  have out: "(120::int) < 21 \<or> (108::int) < 120" by simp
  have a: "whiteKeyLoop 21 10 0 = 0 \<and> lane_x (getNoteX 10) = lane_x (getNoteX 21)"
    using C10_out_of_range_pitches [of 10] lo by blast
  have b: "KEYBOARD_WIDTH / 2 < lane_x (getNoteX 120)"
    using C10_out_of_range_pitches [of 120] hi by blast
  have l: "PianoScene_notes (Some [[?n]]) Both = [demoNote 120 2 0.5]"
    by (rule demoNote_built)
  then have "demoNote 120 2 0.5 \<in> set (PianoScene_notes (Some [[?n]]) Both)" by simp
  then obtain k i where "k < length [[?n]]" "i < length ([[?n]] ! k)"
    and bn: "buildNote Both k i ([[?n]] ! k ! i) = Some (demoNote 120 2 0.5)"
    unfolding in_PianoScene_notes by blast
  then have bn': "buildNote Both 0 0 ?n = Some (demoNote 120 2 0.5)" by simp
  have "(FallingNotes_note 1 (demoNote 120 2 0.5) \<noteq> None)
          = (m_time ?n - 1 \<le> VISIBLE_WINDOW \<and> - 0.5 \<le> m_time ?n - 1 + m_duration ?n)"
    using C10_out_of_range_pitches [of _ Both 0 0 ?n _ "demoNote 120 2 0.5" 1] bn' by blast
  then have c: "FallingNotes_note 1 (demoNote 120 2 0.5) \<noteq> None"
    by (simp add: constants_defs)
  have "(SynthesiaFallingNotes_note 1 (demoNote 120 2 0.5) \<noteq> None)
          = (m_time ?n - 1 \<le> VISIBLE_WINDOW \<and> 0 \<le> m_time ?n - 1 + m_duration ?n
             \<and> (0 \<le> m_time ?n - 1
                 \<or> (1 - m_time ?n) * NOTE_SPEED
                      < max 0.1 (m_duration ?n * NOTE_SPEED - NOTE_GAP)))"
    using C10_out_of_range_pitches [of _ Both 0 0 ?n _ "demoNote 120 2 0.5" 1] bn' by blast
  then have d: "SynthesiaFallingNotes_note 1 (demoNote 120 2 0.5) \<noteq> None"
    by (simp add: constants_defs)
  have "(m_midi ?n \<in> PianoScene_activeNotes 2.25 [demoNote 120 2 0.5])
          = (m_time ?n \<le> 2.25 \<and> 2.25 < m_time ?n + m_duration ?n)"
    using C10_out_of_range_pitches [of _ Both 0 0 ?n _ "demoNote 120 2 0.5" "2.25"] bn' by blast
  then have e: "120 \<in> PianoScene_activeNotes 2.25 [demoNote 120 2 0.5]" by simp
  have f: "PianoKeys_forEach 120 = None"
    and g: "PianoKeys_useFrame (120 # [60]) = PianoKeys_useFrame [60]"
    and h: "PianoKeys_render (insert 120 {60}) = PianoKeys_render {60}"
    using C10_out_of_range_pitches [of 120 _ _ _ _ _ _ _ _ "{60}" "[60]"] out by blast+
  show ?thesis using a b l c d e f g h by simp
qed

end
